theory Spec2Isabelle
  imports Main "HOL-Library.AList"
begin

section \<open>Python building blocks used by \<^verbatim>\<open>darshan_agg.py\<close>\<close>

text \<open>
  Every \<^verbatim>\<open>raise ValueError(...)\<close> of the source is one constructor, named after its
  message and carrying the path or name the message is formatted with:
  \<^item> \<open>PathDoesNotExist\<close>: \<^verbatim>\<open>Provided path %s does not exist.\<close> (reader and scanner);
  \<^item> \<open>NotAValidFile\<close>: \<^verbatim>\<open>Provided path %s is not a valid file.\<close>;
  \<^item> \<open>NotADirectory\<close>: \<^verbatim>\<open>Provided path %s is not a directroy.\<close>;
  \<^item> \<open>RecordIdsNotUnique\<close>: \<^verbatim>\<open>ASSUMPTION FALSE: record IDs are not unique!\<close>;
  \<^item> \<open>NameNotUnique\<close>: \<^verbatim>\<open>The name %s is not unique -- attempted to insert a row ...\<close>;
  \<^item> \<open>OutputNotADirectory\<close>:
    \<^verbatim>\<open>Provided directory %s exists and is not a directory. Aborting.\<close>

  \<open>KeyError\<close>, \<open>TypeError\<close> and \<open>AttributeError\<close> are what Python raises for a missing
  dictionary key, for indexing or iterating a value of the wrong type and for calling a
  method a value does not have.
\<close>

datatype error =
    PathDoesNotExist string
  | NotAValidFile string
  | NotADirectory string
  | RecordIdsNotUnique
  | NameNotUnique string
  | OutputNotADirectory string
  | KeyError
  | TypeError
  | AttributeError

text \<open>
  A Python \<^verbatim>\<open>dict\<close> is an association list in insertion order: \<^verbatim>\<open>d[k] = v\<close> is
  \<^const>\<open>AList.update\<close> (an existing key keeps its place and takes the new value, a new
  key goes last), \<^verbatim>\<open>d[k]\<close> is \<^const>\<open>map_of\<close> and \<^verbatim>\<open>d.keys()\<close> is \<open>map fst\<close>.
\<close>

type_synonym ('k, 'v) dict = "('k \<times> 'v) list"

text \<open>\<^verbatim>\<open>str(i)\<close> for a Python integer: decimal digits, with a minus sign when negative.\<close>

definition digit :: "nat \<Rightarrow> char" where
  "digit n = ''0123456789'' ! n"

fun str_nat :: "nat \<Rightarrow> string" where
  "str_nat n = (if n < 10 then [digit n] else str_nat (n div 10) @ [digit (n mod 10)])"

declare str_nat.simps [simp del]

definition str_int :: "int \<Rightarrow> string" where
  "str_int i = (if i < 0 then CHR ''-'' # str_nat (nat (- i)) else str_nat (nat i))"

text \<open>\<^verbatim>\<open>sep.join(parts)\<close>.\<close>

fun str_join :: "string \<Rightarrow> string list \<Rightarrow> string" where
  "str_join sep [] = []"
| "str_join sep [x] = x"
| "str_join sep (x # y # ys) = x @ sep @ str_join sep (y # ys)"

text \<open>
  \<^verbatim>\<open>os.path.join(a, b)\<close> of \<^verbatim>\<open>posixpath\<close>: an absolute \<open>b\<close> replaces \<open>a\<close>; otherwise
  \<open>b\<close> is appended, after a slash unless \<open>a\<close> is empty or already ends with one.
\<close>

definition os_path_join :: "string \<Rightarrow> string \<Rightarrow> string" where
  "os_path_join a b =
     (if b \<noteq> [] \<and> hd b = CHR ''/'' then b
      else if a = [] \<or> last a = CHR ''/'' then a @ b
      else a @ ''/'' @ b)"

subsection \<open>Metadata values and the metadata table\<close>

text \<open>
  A value of the vendor's job metadata: an integer, a string, or a value the program
  only stores and prints (the float run time, the nested \<^verbatim>\<open>metadata\<close> dictionary),
  kept as the text \<^verbatim>\<open>str\<close> gives for it.
\<close>

datatype pyval = PInt int | PStr string | POther string

fun py_str :: "pyval \<Rightarrow> string" where
  "py_str (PInt i) = str_int i"
| "py_str (PStr s) = s"
| "py_str (POther s) = s"

text \<open>
  The \<^verbatim>\<open>pandas.DataFrame\<close> of the metadata: its column names and its rows by index
  label. \<^verbatim>\<open>pd.DataFrame(columns=h)\<close> has no row, \<^verbatim>\<open>df.index.values.tolist()\<close> is
  the labels, and \<^verbatim>\<open>df.loc[label] = row\<close> sets the row of an existing label and
  appends a new one.
\<close>

record metadata_df =
  df_columns :: "string list"
  df_rows :: "(string, pyval list) dict"

definition DataFrame :: "string list \<Rightarrow> metadata_df" where
  "DataFrame cols = \<lparr>df_columns = cols, df_rows = []\<rparr>"

definition df_index :: "metadata_df \<Rightarrow> string list" where
  "df_index df = map fst (df_rows df)"

definition df_loc_set :: "metadata_df \<Rightarrow> string \<Rightarrow> pyval list \<Rightarrow> metadata_df" where
  "df_loc_set df label row = df\<lparr>df_rows := AList.update label row (df_rows df)\<rparr>"

subsection \<open>Effects\<close>

text \<open>
  What the program does to the file system is the list of its actions, in order:
  \<^verbatim>\<open>os.mkdir(p)\<close>, \<^verbatim>\<open>table.to_parquet(p)\<close> for a module table and for the metadata
  table. A run is that list with the exception that ended it, if any: the actions
  before a \<^verbatim>\<open>raise\<close> have happened. \<open>'df\<close> is the vendor's table
  (\<^verbatim>\<open>pandas.DataFrame\<close>), which the program stores and writes but never inspects.
  Failures of the operating system itself (a full disk, a missing parent directory)
  are outside the model, and so is what the program prints: the \<^verbatim>\<open>debug\<close> flag
  only adds messages and is left out.
\<close>

datatype 'df action =
    Mkdir string
  | ToParquet string 'df
  | MetadataToParquet string metadata_df

type_synonym 'df io = "'df action list \<times> error option"

definition io_seq :: "'df io \<Rightarrow> 'df io \<Rightarrow> 'df io" where
  "io_seq a b = (case snd a of Some e \<Rightarrow> a | None \<Rightarrow> (fst a @ fst b, snd b))"

fun io_for :: "('a \<Rightarrow> 'df io) \<Rightarrow> 'a list \<Rightarrow> 'df io" where
  "io_for body [] = ([], None)"
| "io_for body (x # xs) = io_seq (body x) (io_for body xs)"

section \<open>Record collections\<close>

subsection \<open>The detailed-segment collection\<close>

text \<open>
  A record of \<^verbatim>\<open>report.records['DXT_POSIX'].to_df()\<close>: a dictionary with the keys
  \<^verbatim>\<open>id\<close>, \<^verbatim>\<open>rank\<close>, \<^verbatim>\<open>hostname\<close>, \<^verbatim>\<open>read_count\<close>, \<^verbatim>\<open>write_count\<close>,
  \<^verbatim>\<open>read_segments\<close> and \<^verbatim>\<open>write_segments\<close>, which the source reads by literal key.
\<close>

record 'df dxt_record =
  x_id :: int
  x_rank :: int
  x_hostname :: string
  x_read_count :: int
  x_write_count :: int
  x_read_segments :: 'df
  x_write_segments :: 'df

text \<open>\<^verbatim>\<open>class DXT_POSIX_metadata\<close>; its fields carry the prefix \<open>md_\<close>.\<close>

record DXT_POSIX_metadata =
  md_id :: int
  md_rank :: int
  md_hostname :: string
  md_write_count :: int
  md_read_count :: int

text \<open>\<^verbatim>\<open>DXT_POSIX_metadata.__init__(self, i_id, i_rank, i_hostname, i_write, i_read)\<close>.\<close>

definition DXT_POSIX_metadata_init ::
  "int \<Rightarrow> int \<Rightarrow> string \<Rightarrow> int \<Rightarrow> int \<Rightarrow> DXT_POSIX_metadata" where
  "DXT_POSIX_metadata_init i_id i_rank i_hostname i_write i_read =
     \<lparr>md_id = i_id, md_rank = i_rank, md_hostname = i_hostname,
      md_write_count = i_write, md_read_count = i_read\<rparr>"

definition to_filename :: "DXT_POSIX_metadata \<Rightarrow> string" where
  "to_filename self = str_join ''_'' [str_int (md_id self), str_int (md_rank self), md_hostname self]"

text \<open>\<^verbatim>\<open>class DXT_POSIX_coll\<close>; its fields carry the prefix \<open>dxt_\<close>.\<close>

record 'df DXT_POSIX_coll =
  dxt_metadata :: "DXT_POSIX_metadata list"
  dxt_read_segments :: "(int, 'df) dict"
  dxt_write_segments :: "(int, 'df) dict"

text \<open>The loop of \<^verbatim>\<open>DXT_POSIX_coll.__init__\<close>, one record per step.\<close>

fun DXT_POSIX_coll_loop ::
  "'df dxt_record list \<Rightarrow> 'df DXT_POSIX_coll \<Rightarrow> error + 'df DXT_POSIX_coll" where
  "DXT_POSIX_coll_loop [] self = Inr self"
| "DXT_POSIX_coll_loop (r # posix_records) self =
     (let record_metadata =
            DXT_POSIX_metadata_init (x_id r) (x_rank r) (x_hostname r)
              (x_read_count r) (x_write_count r);
          self1 = self\<lparr>dxt_metadata := dxt_metadata self @ [record_metadata]\<rparr>
      in if md_id record_metadata \<in> set (map fst (dxt_read_segments self1))
         then Inl RecordIdsNotUnique
         else DXT_POSIX_coll_loop posix_records
                (self1\<lparr>dxt_read_segments :=
                          AList.update (md_id record_metadata) (x_read_segments r)
                            (dxt_read_segments self1),
                        dxt_write_segments :=
                          AList.update (md_id record_metadata) (x_write_segments r)
                            (dxt_write_segments self1)\<rparr>))"

definition DXT_POSIX_coll_init :: "'df dxt_record list \<Rightarrow> error + 'df DXT_POSIX_coll" where
  "DXT_POSIX_coll_init posix_records =
     DXT_POSIX_coll_loop posix_records
       \<lparr>dxt_metadata = [], dxt_read_segments = [], dxt_write_segments = []\<rparr>"

definition DXT_POSIX_coll_export_parquet ::
  "'df DXT_POSIX_coll \<Rightarrow> string \<Rightarrow> string \<Rightarrow> 'df io" where
  "DXT_POSIX_coll_export_parquet self directory prefix =
     (let file_prefix = ''DXTPOSIX''; file_suffix = ''.parquet'' in
      io_for (\<lambda>r.
        let file_id_prefix = to_filename r;
            read_filename = file_prefix @ ''_'' @ prefix @ ''_'' @ file_id_prefix
                              @ ''_read_segments'' @ file_suffix;
            write_filename = file_prefix @ ''_'' @ prefix @ ''_'' @ file_id_prefix
                              @ ''_write_segments'' @ file_suffix
        in io_seq
             (case map_of (dxt_read_segments self) (md_id r) of
                None \<Rightarrow> ([], Some KeyError)
              | Some df \<Rightarrow> ([ToParquet (os_path_join directory read_filename) df], None))
             (case map_of (dxt_write_segments self) (md_id r) of
                None \<Rightarrow> ([], Some KeyError)
              | Some df \<Rightarrow> ([ToParquet (os_path_join directory write_filename) df], None)))
        (dxt_metadata self))"

subsection \<open>Counters-only and counters plus float-counters collections\<close>

text \<open>
  A record of \<^verbatim>\<open>report.records[module]\<close>: a dictionary with the keys \<^verbatim>\<open>rank\<close>,
  \<^verbatim>\<open>id\<close> and \<^verbatim>\<open>counters\<close>, and for POSIX and STDIO also \<^verbatim>\<open>fcounters\<close>.
\<close>

record 'df counters_record =
  r_rank :: int
  r_id :: int
  r_counters :: 'df

record 'df fcounters_record = "'df counters_record" +
  r_fcounters :: 'df

text \<open>\<^verbatim>\<open>class counters_coll\<close> (fields prefixed \<open>cc_\<close>) and its subclass
  \<^verbatim>\<open>fcounters_coll\<close>, which adds \<^verbatim>\<open>fcounters\<close>.\<close>

record 'df counters_coll =
  cc_metadata :: "(int \<times> int) list"
  cc_counters :: "(int \<times> int, 'df) dict"

record 'df fcounters_coll = "'df counters_coll" +
  cc_fcounters :: "(int \<times> int, 'df) dict"

fun counters_coll_loop ::
  "('df, 'r) counters_record_scheme list \<Rightarrow> 'df counters_coll \<Rightarrow> 'df counters_coll" where
  "counters_coll_loop [] self = self"
| "counters_coll_loop (r # records) self =
     (let record_metadata = (r_rank r, r_id r) in
      counters_coll_loop records
        (self\<lparr>cc_metadata := cc_metadata self @ [record_metadata],
               cc_counters := AList.update record_metadata (r_counters r) (cc_counters self)\<rparr>))"

definition counters_coll_init ::
  "('df, 'r) counters_record_scheme list \<Rightarrow> 'df counters_coll" where
  "counters_coll_init records =
     counters_coll_loop records \<lparr>cc_metadata = [], cc_counters = []\<rparr>"

fun fcounters_coll_loop ::
  "('df, 'r) fcounters_record_scheme list \<Rightarrow> 'df fcounters_coll \<Rightarrow> 'df fcounters_coll" where
  "fcounters_coll_loop [] self = self"
| "fcounters_coll_loop (r # records) self =
     (let record_metadata = (r_rank r, r_id r) in
      fcounters_coll_loop records
        (self\<lparr>cc_metadata := cc_metadata self @ [record_metadata],
               cc_counters := AList.update record_metadata (r_counters r) (cc_counters self),
               cc_fcounters := AList.update record_metadata (r_fcounters r) (cc_fcounters self)\<rparr>))"

definition fcounters_coll_init ::
  "('df, 'r) fcounters_record_scheme list \<Rightarrow> 'df fcounters_coll" where
  "fcounters_coll_init records =
     fcounters_coll_loop records \<lparr>cc_metadata = [], cc_counters = [], cc_fcounters = []\<rparr>"

definition file_fillers :: "string \<Rightarrow> string \<times> string" where
  "file_fillers module_name = (module_name @ ''_'', ''.parquet'')"

definition counters_coll_export_parquet ::
  "('df, 'c) counters_coll_scheme \<Rightarrow> string \<Rightarrow> string \<Rightarrow> string \<Rightarrow> 'df io" where
  "counters_coll_export_parquet self module_name directory prefix =
     (case file_fillers module_name of (file_prefix, file_suffix) \<Rightarrow>
      io_for (\<lambda>r.
        let file_id_prefix = str_join ''_'' (map str_int [fst r, snd r]);
            counters_filename = file_prefix @ prefix @ ''_'' @ file_id_prefix
                                  @ ''_counters'' @ file_suffix
        in case map_of (cc_counters self) r of
             None \<Rightarrow> ([], Some KeyError)
           | Some df \<Rightarrow> ([ToParquet (os_path_join directory counters_filename) df], None))
        (cc_metadata self))"

definition fcounters_coll_export_parquet ::
  "('df, 'c) fcounters_coll_scheme \<Rightarrow> string \<Rightarrow> string \<Rightarrow> string \<Rightarrow> 'df io" where
  "fcounters_coll_export_parquet self module_name directory prefix =
     io_seq (counters_coll_export_parquet self module_name directory prefix)
       (case file_fillers module_name of (file_prefix, file_suffix) \<Rightarrow>
        io_for (\<lambda>r.
          let file_id_prefix = str_join ''_'' (map str_int [fst r, snd r]);
              fcounters_filename = file_prefix @ prefix @ ''_'' @ file_id_prefix
                                     @ ''_fcounters'' @ file_suffix
          in case map_of (cc_fcounters self) r of
               None \<Rightarrow> ([], Some KeyError)
             | Some df \<Rightarrow> ([ToParquet (os_path_join directory fcounters_filename) df], None))
          (cc_metadata self))"

text \<open>
  The classes the reader instantiates, each with its two-argument
  \<^verbatim>\<open>export_parquet(directory, prefix)\<close> that passes the module name on.
\<close>

datatype 'df coll =
    POSIX_coll "'df fcounters_coll"
  | LUSTRE_coll "'df counters_coll"
  | STDIO_coll "'df fcounters_coll"
  | DXT_POSIX_coll_object "'df DXT_POSIX_coll"

fun export_parquet :: "'df coll \<Rightarrow> string \<Rightarrow> string \<Rightarrow> 'df io" where
  "export_parquet (LUSTRE_coll c) directory prefix =
     counters_coll_export_parquet c ''LUSTRE'' directory prefix"
| "export_parquet (STDIO_coll c) directory prefix =
     fcounters_coll_export_parquet c ''STDIO'' directory prefix"
| "export_parquet (POSIX_coll c) directory prefix =
     fcounters_coll_export_parquet c ''POSIX'' directory prefix"
| "export_parquet (DXT_POSIX_coll_object c) directory prefix =
     DXT_POSIX_coll_export_parquet c directory prefix"

section \<open>The trace reader\<close>

text \<open>
  What \<^verbatim>\<open>darshan.DarshanReport(filename, read_all=False)\<close> gives: the metadata with
  its \<^verbatim>\<open>job\<close> dictionary and its \<^verbatim>\<open>exe\<close> entry, the module names
  \<^verbatim>\<open>list(report.modules.keys())\<close>, and \<^verbatim>\<open>report.records[m]\<close> as it stands after the
  loading call for module \<open>m\<close> (for DXT_POSIX after \<^verbatim>\<open>to_df()\<close>). The records of
  MPI-IO and DXT_MPIIO are only printed and those of HEATMAP are never read (the block
  is commented out), so the report carries none of them; printing is not modelled.
\<close>

record report_metadata =
  job :: "(string, pyval) dict"
  exe :: pyval

record 'df report =
  rp_metadata :: report_metadata
  rp_modules :: "string list"
  rp_records_POSIX :: "'df fcounters_record list"
  rp_records_LUSTRE :: "'df counters_record list"
  rp_records_STDIO :: "'df fcounters_record list"
  rp_records_DXT_POSIX :: "'df dxt_record list"

text \<open>The values of the dictionary \<^verbatim>\<open>read_log\<close> returns, by their Python type.\<close>

datatype 'df outval =
    MetadataV report_metadata
  | StrList "string list"
  | Coll "'df coll"
  | ReportV "'df report"

type_synonym 'df job_record = "(string, 'df outval) dict"

text \<open>
  The outside world the program reads: \<^verbatim>\<open>os.path.exists\<close>, \<^verbatim>\<open>os.path.isdir\<close>,
  \<^verbatim>\<open>os.path.isfile\<close>, \<^verbatim>\<open>os.listdir\<close> and the vendor's reader.
\<close>

record 'df world =
  path_exists :: "string \<Rightarrow> bool"
  path_isdir :: "string \<Rightarrow> bool"
  path_isfile :: "string \<Rightarrow> bool"
  listdir :: "string \<Rightarrow> string list"
  DarshanReport :: "string \<Rightarrow> 'df report"

definition read_log :: "'df world \<Rightarrow> string \<Rightarrow> error + 'df job_record" where
  "read_log w filename =
     (if \<not> path_exists w filename then Inl (PathDoesNotExist filename)
      else if \<not> path_isfile w filename then Inl (NotAValidFile filename)
      else
        let report = DarshanReport w filename;
            output0 = AList.update ''metadata'' (MetadataV (rp_metadata report)) [];
            modules = rp_modules report;
            output1 = AList.update ''modules'' (StrList modules) output0;
            loaded0 = [];
            (output2, loaded1) =
              (if ''POSIX'' \<in> set modules
               then (AList.update ''POSIX_coll''
                       (Coll (POSIX_coll (fcounters_coll_init (rp_records_POSIX report)))) output1,
                     loaded0 @ [''POSIX_coll''])
               else (output1, loaded0));
            (output3, loaded2) =
              (if ''LUSTRE'' \<in> set modules
               then (AList.update ''LUSTRE_coll''
                       (Coll (LUSTRE_coll (counters_coll_init (rp_records_LUSTRE report)))) output2,
                     loaded1 @ [''LUSTRE_coll''])
               else (output2, loaded1));
            (output4, loaded3) =
              (if ''STDIO'' \<in> set modules
               then (AList.update ''STDIO_coll''
                       (Coll (STDIO_coll (fcounters_coll_init (rp_records_STDIO report)))) output3,
                     loaded2 @ [''STDIO_coll''])
               else (output3, loaded2))
        in case (if ''DXT_POSIX'' \<in> set modules
                 then (case DXT_POSIX_coll_init (rp_records_DXT_POSIX report) of
                         Inl e \<Rightarrow> Inl e
                       | Inr c \<Rightarrow>
                           Inr (AList.update ''DXT_POSIX_coll_object''
                                  (Coll (DXT_POSIX_coll_object c)) output4,
                                loaded3 @ [''DXT_POSIX_coll_object'']))
                 else Inr (output4, loaded3)) of
             Inl e \<Rightarrow> Inl e
           | Inr (output5, loaded4) \<Rightarrow>
               Inr (AList.update ''loaded_modules'' (StrList loaded4)
                      (AList.update ''report'' (ReportV report) output5)))"

section \<open>The log directory scanner\<close>

text \<open>
  \<^verbatim>\<open>os.path.splitext\<close> of \<^verbatim>\<open>posixpath\<close>: the extension starts at the last dot that
  comes after the last slash, provided a character other than a dot stands between that
  slash and that dot; otherwise the extension is empty. \<open>rfind\<close> is \<^verbatim>\<open>str.rfind\<close> for
  one character.
\<close>

definition rfind :: "string \<Rightarrow> char \<Rightarrow> int" where
  "rfind p c =
     (if c \<in> set p then int (length p) - 1 - int (length (takeWhile (\<lambda>x. x \<noteq> c) (rev p)))
      else - 1)"

definition splitext :: "string \<Rightarrow> string \<times> string" where
  "splitext p =
     (let sepIndex = rfind p CHR ''/''; dotIndex = rfind p CHR ''.'' in
      if dotIndex > sepIndex \<and>
         list_ex (\<lambda>x. x \<noteq> CHR ''.'')
           (take (nat (dotIndex - (sepIndex + 1))) (drop (nat (sepIndex + 1)) p))
      then (take (nat dotIndex) p, drop (nat dotIndex) p)
      else (p, []))"

definition collect_logfiles :: "'df world \<Rightarrow> string \<Rightarrow> error + string list" where
  "collect_logfiles w directory =
     (if \<not> path_exists w directory then Inl (PathDoesNotExist directory)
      else if \<not> path_isdir w directory then Inl (NotADirectory directory)
      else
        let files = filter (\<lambda>f. path_isfile w (os_path_join directory f)) (listdir w directory);
            logfiles = filter (\<lambda>f. snd (splitext f) = ''.darshan'') files
        in Inr logfiles)"

section \<open>The metadata table builder\<close>

definition mdf_header :: "string list" where
  "mdf_header =
     [''run_time'', ''start_time_nsec'', ''start_time_sec'', ''end_time_nsec'',
      ''end_time_sec'', ''jobid'', ''uid'', ''log_ver'', ''metadata'', ''nprocs'', ''exe'']"

text \<open>\<^verbatim>\<open>report['metadata']\<close> and \<^verbatim>\<open>report['metadata']['job']\<close>.\<close>

definition report_metadata_of :: "'df job_record \<Rightarrow> error + report_metadata" where
  "report_metadata_of report =
     (case map_of report ''metadata'' of
        None \<Rightarrow> Inl KeyError
      | Some (MetadataV md) \<Rightarrow> Inr md
      | Some _ \<Rightarrow> Inl TypeError)"

text \<open>The inner loop \<^verbatim>\<open>for val in mdf_header[:-1]\<close>.\<close>

fun collect_values :: "'df job_record \<Rightarrow> string list \<Rightarrow> pyval list \<Rightarrow> error + pyval list" where
  "collect_values report [] vs = Inr vs"
| "collect_values report (val # vals) vs =
     (case report_metadata_of report of
        Inl e \<Rightarrow> Inl e
      | Inr md \<Rightarrow>
          (case map_of (job md) val of
             None \<Rightarrow> Inl KeyError
           | Some v \<Rightarrow> collect_values report vals (vs @ [v])))"

definition row_values :: "'df job_record \<Rightarrow> error + pyval list" where
  "row_values report =
     (case collect_values report (butlast mdf_header) [] of
        Inl e \<Rightarrow> Inl e
      | Inr vs \<Rightarrow>
          (case report_metadata_of report of
             Inl e \<Rightarrow> Inl e
           | Inr md \<Rightarrow> Inr (vs @ [exe md])))"

text \<open>The outer loop \<^verbatim>\<open>for report_name in list(report_data.keys())\<close>.\<close>

fun move_metadata_loop ::
  "(string, 'df job_record) dict \<Rightarrow> string list \<Rightarrow> metadata_df \<Rightarrow> error + metadata_df" where
  "move_metadata_loop report_data [] metadata_df = Inr metadata_df"
| "move_metadata_loop report_data (report_name # names) metadata_df =
     (case map_of report_data report_name of
        None \<Rightarrow> Inl KeyError
      | Some report \<Rightarrow>
          (case row_values report of
             Inl e \<Rightarrow> Inl e
           | Inr vs \<Rightarrow>
               if report_name \<in> set (df_index metadata_df)
               then Inl (NameNotUnique report_name)
               else move_metadata_loop report_data names
                      (df_loc_set metadata_df report_name vs)))"

definition move_metadata_into_dataframe ::
  "(string, 'df job_record) dict \<Rightarrow> error + metadata_df" where
  "move_metadata_into_dataframe report_data =
     move_metadata_loop report_data (map fst report_data) (DataFrame mdf_header)"

definition generate_name_for_report :: "'df job_record \<Rightarrow> error + string" where
  "generate_name_for_report report =
     (case report_metadata_of report of
        Inl e \<Rightarrow> Inl e
      | Inr md \<Rightarrow>
          (let job_metadata = job md in
           case map_of job_metadata ''uid'' of
             None \<Rightarrow> Inl KeyError
           | Some uid \<Rightarrow>
               (case map_of job_metadata ''jobid'' of
                  None \<Rightarrow> Inl KeyError
                | Some jobid \<Rightarrow> Inr (str_join ''_'' [py_str uid, py_str jobid]))))"

section \<open>The archive writer and the orchestrator\<close>

text \<open>
  The body of the outer loop of \<^verbatim>\<open>write_to_parquet\<close> for one report: read
  \<^verbatim>\<open>report["loaded_modules"]\<close> and call
  \<^verbatim>\<open>report[module_name].export_parquet(output_dir, report_name)\<close> for each name in it.
\<close>

definition export_loaded_modules :: "'df job_record \<Rightarrow> string \<Rightarrow> string \<Rightarrow> 'df io" where
  "export_loaded_modules report output_dir report_name =
     (case map_of report ''loaded_modules'' of
        None \<Rightarrow> ([], Some KeyError)
      | Some (StrList loaded_modules) \<Rightarrow>
          io_for (\<lambda>module_name.
            case map_of report module_name of
              None \<Rightarrow> ([], Some KeyError)
            | Some (Coll c) \<Rightarrow> export_parquet c output_dir report_name
            | Some _ \<Rightarrow> ([], Some AttributeError)) loaded_modules
      | Some _ \<Rightarrow> ([], Some TypeError))"

definition write_to_parquet ::
  "'df world \<Rightarrow> (string, 'df job_record) dict \<Rightarrow> metadata_df \<Rightarrow> string \<Rightarrow> 'df io" where
  "write_to_parquet w report_data metadata_df output_dir =
     (if path_exists w output_dir \<and> \<not> path_isdir w output_dir
      then ([], Some (OutputNotADirectory output_dir))
      else
        io_seq
          (if path_exists w output_dir then ([], None)
           else if \<not> path_exists w output_dir then ([Mkdir output_dir], None)
           else ([], None))
          (let metadata_df_filename = os_path_join output_dir ''metadata.parquet'' in
           io_seq ([MetadataToParquet metadata_df_filename metadata_df], None)
             (io_for (\<lambda>report_name.
                case map_of report_data report_name of
                  None \<Rightarrow> ([], Some KeyError)
                | Some report \<Rightarrow> export_loaded_modules report output_dir report_name)
                (map fst report_data))))"

text \<open>The loop \<^verbatim>\<open>for f in files\<close> of \<^verbatim>\<open>aggregate_darshan\<close>.\<close>

fun collect_report_data ::
  "'df world \<Rightarrow> string \<Rightarrow> string list \<Rightarrow> (string, 'df job_record) dict
   \<Rightarrow> error + (string, 'df job_record) dict" where
  "collect_report_data w directory [] collected_report_data = Inr collected_report_data"
| "collect_report_data w directory (f # files) collected_report_data =
     (case read_log w (os_path_join directory f) of
        Inl e \<Rightarrow> Inl e
      | Inr tmp_report_data \<Rightarrow>
          (case generate_name_for_report tmp_report_data of
             Inl e \<Rightarrow> Inl e
           | Inr tmp_name \<Rightarrow>
               collect_report_data w directory files
                 (AList.update tmp_name tmp_report_data collected_report_data)))"

definition aggregate_darshan :: "'df world \<Rightarrow> string \<Rightarrow> string \<Rightarrow> 'df io" where
  "aggregate_darshan w directory output_loc =
     (case collect_logfiles w directory of
        Inl e \<Rightarrow> ([], Some e)
      | Inr files \<Rightarrow>
          (case collect_report_data w directory files [] of
             Inl e \<Rightarrow> ([], Some e)
           | Inr collected_report_data \<Rightarrow>
               (case move_metadata_into_dataframe collected_report_data of
                  Inl e \<Rightarrow> ([], Some e)
                | Inr metadata_df \<Rightarrow>
                    write_to_parquet w collected_report_data metadata_df output_loc)))"

section \<open>Well-formed collections and job records\<close>

text \<open>
  The invariant the constructors establish and the export loops rely on: every
  identity listed in a collection's \<^verbatim>\<open>metadata\<close> is a key of each of its dictionaries.
\<close>

fun coll_ok :: "'df coll \<Rightarrow> bool" where
  "coll_ok (LUSTRE_coll c) = (set (cc_metadata c) \<subseteq> fst ` set (cc_counters c))"
| "coll_ok (STDIO_coll c) =
     (set (cc_metadata c) \<subseteq> fst ` set (cc_counters c) \<and>
      set (cc_metadata c) \<subseteq> fst ` set (cc_fcounters c))"
| "coll_ok (POSIX_coll c) =
     (set (cc_metadata c) \<subseteq> fst ` set (cc_counters c) \<and>
      set (cc_metadata c) \<subseteq> fst ` set (cc_fcounters c))"
| "coll_ok (DXT_POSIX_coll_object c) =
     (md_id ` set (dxt_metadata c) \<subseteq> fst ` set (dxt_read_segments c) \<and>
      md_id ` set (dxt_metadata c) \<subseteq> fst ` set (dxt_write_segments c))"

text \<open>
  A job record as the archive writer needs it: \<^verbatim>\<open>loaded_modules\<close> is a list of
  strings, each the key of a well-formed collection. \<open>loaded_colls\<close> reads those
  collections off, in the order of \<^verbatim>\<open>loaded_modules\<close>.
\<close>

definition job_record_ok :: "'df job_record \<Rightarrow> bool" where
  "job_record_ok report =
     (case map_of report ''loaded_modules'' of
        Some (StrList loaded_modules) \<Rightarrow>
          list_all (\<lambda>module_name.
            case map_of report module_name of
              Some (Coll c) \<Rightarrow> coll_ok c
            | _ \<Rightarrow> False) loaded_modules
      | _ \<Rightarrow> False)"

definition loaded_colls :: "'df job_record \<Rightarrow> 'df coll list" where
  "loaded_colls report =
     (case map_of report ''loaded_modules'' of
        Some (StrList loaded_modules) \<Rightarrow>
          List.map_filter (\<lambda>module_name.
            case map_of report module_name of
              Some (Coll c) \<Rightarrow> Some c
            | _ \<Rightarrow> None) loaded_modules
      | _ \<Rightarrow> [])"

text \<open>
  A job record whose metadata has what the table builder reads: the \<^verbatim>\<open>job\<close>
  dictionary has every column of the header but the last.
\<close>

definition metadata_ok :: "'df job_record \<Rightarrow> bool" where
  "metadata_ok report =
     (case map_of report ''metadata'' of
        Some (MetadataV md) \<Rightarrow> list_all (\<lambda>val. map_of (job md) val \<noteq> None) (butlast mdf_header)
      | _ \<Rightarrow> False)"

section \<open>Example inputs\<close>

text \<open>
  A small world with tables named by strings. The directory \<open>logs\<close> holds a finished
  trace, a partial trace and a text file; the trace has the modules DXT_POSIX, HEATMAP
  and DXT_MPIIO. The directory \<open>runs\<close> holds two traces of the same user and job
  identifier, each with one LUSTRE record. The path \<open>out\<close> does not exist.
\<close>

definition example_job :: "int \<Rightarrow> int \<Rightarrow> (string, pyval) dict" where
  "example_job u j =
     [(''uid'', PInt u), (''start_time_sec'', PInt 100), (''start_time_nsec'', PInt 5),
      (''end_time_sec'', PInt 112), (''end_time_nsec'', PInt 6), (''nprocs'', PInt 4),
      (''jobid'', PInt j), (''run_time'', POther ''12.5''), (''log_ver'', PStr ''3.41''),
      (''metadata'', POther ''{}'')]"

definition report_a :: "string report" where
  "report_a =
     \<lparr>rp_metadata = \<lparr>job = example_job 1 42, exe = PStr ''/bin/a''\<rparr>,
      rp_modules = [''LUSTRE''],
      rp_records_POSIX = [],
      rp_records_LUSTRE = [\<lparr>r_rank = 0, r_id = 7, r_counters = ''counters_a''\<rparr>],
      rp_records_STDIO = [],
      rp_records_DXT_POSIX = []\<rparr>"

definition report_b :: "string report" where
  "report_b =
     \<lparr>rp_metadata = \<lparr>job = example_job 1 42, exe = PStr ''/bin/b''\<rparr>,
      rp_modules = [''LUSTRE''],
      rp_records_POSIX = [],
      rp_records_LUSTRE = [\<lparr>r_rank = 0, r_id = 7, r_counters = ''counters_b''\<rparr>],
      rp_records_STDIO = [],
      rp_records_DXT_POSIX = []\<rparr>"

definition report_dxt :: "string report" where
  "report_dxt =
     \<lparr>rp_metadata = \<lparr>job = example_job 2 43, exe = PStr ''/bin/x''\<rparr>,
      rp_modules = [''DXT_POSIX'', ''HEATMAP'', ''DXT_MPIIO''],
      rp_records_POSIX = [],
      rp_records_LUSTRE = [],
      rp_records_STDIO = [],
      rp_records_DXT_POSIX =
        [\<lparr>x_id = 9, x_rank = 0, x_hostname = ''n1'', x_read_count = 2, x_write_count = 3,
          x_read_segments = ''reads'', x_write_segments = ''writes''\<rparr>]\<rparr>"

definition example_world :: "string world" where
  "example_world =
     \<lparr>path_exists = (\<lambda>p. p \<in> set [''logs'', ''logs/a.darshan'', ''logs/b.darshan_partial'',
                                     ''logs/c.txt'', ''runs'', ''runs/a.darshan'',
                                     ''runs/b.darshan'']),
      path_isdir = (\<lambda>p. p \<in> set [''logs'', ''runs'']),
      path_isfile = (\<lambda>p. p \<in> set [''logs/a.darshan'', ''logs/b.darshan_partial'',
                                     ''logs/c.txt'', ''runs/a.darshan'', ''runs/b.darshan'']),
      listdir = (\<lambda>p. if p = ''logs'' then [''a.darshan'', ''b.darshan_partial'', ''c.txt'']
                      else if p = ''runs'' then [''a.darshan'', ''b.darshan''] else []),
      DarshanReport = (\<lambda>p. if p = ''runs/a.darshan'' then report_a
                            else if p = ''runs/b.darshan'' then report_b else report_dxt)\<rparr>"

text \<open>The job records the reader returns for \<open>runs/a.darshan\<close>, \<open>runs/b.darshan\<close> and
  \<open>logs/a.darshan\<close>.\<close>

definition job_record_a :: "string job_record" where
  "job_record_a =
     [(''metadata'', MetadataV \<lparr>job = example_job 1 42, exe = PStr ''/bin/a''\<rparr>),
      (''modules'', StrList [''LUSTRE'']),
      (''LUSTRE_coll'',
       Coll (LUSTRE_coll \<lparr>cc_metadata = [(0, 7)], cc_counters = [((0, 7), ''counters_a'')]\<rparr>)),
      (''report'', ReportV report_a),
      (''loaded_modules'', StrList [''LUSTRE_coll''])]"

definition job_record_b :: "string job_record" where
  "job_record_b =
     [(''metadata'', MetadataV \<lparr>job = example_job 1 42, exe = PStr ''/bin/b''\<rparr>),
      (''modules'', StrList [''LUSTRE'']),
      (''LUSTRE_coll'',
       Coll (LUSTRE_coll \<lparr>cc_metadata = [(0, 7)], cc_counters = [((0, 7), ''counters_b'')]\<rparr>)),
      (''report'', ReportV report_b),
      (''loaded_modules'', StrList [''LUSTRE_coll''])]"

definition job_record_dxt :: "string job_record" where
  "job_record_dxt =
     [(''metadata'', MetadataV \<lparr>job = example_job 2 43, exe = PStr ''/bin/x''\<rparr>),
      (''modules'', StrList [''DXT_POSIX'', ''HEATMAP'', ''DXT_MPIIO'']),
      (''DXT_POSIX_coll_object'',
       Coll (DXT_POSIX_coll_object
         \<lparr>dxt_metadata = [\<lparr>md_id = 9, md_rank = 0, md_hostname = ''n1'',
                            md_write_count = 2, md_read_count = 3\<rparr>],
          dxt_read_segments = [(9, ''reads'')],
          dxt_write_segments = [(9, ''writes'')]\<rparr>)),
      (''report'', ReportV report_dxt),
      (''loaded_modules'', StrList [''DXT_POSIX_coll_object''])]"

text \<open>A batch of two job records under their generated names.\<close>

definition example_batch :: "(string, string job_record) dict" where
  "example_batch = [(''1_42'', job_record_b), (''2_43'', job_record_dxt)]"

text \<open>Record lists with and without colliding identities.\<close>

definition dxt_records_distinct :: "string dxt_record list" where
  "dxt_records_distinct =
     [\<lparr>x_id = 9, x_rank = 0, x_hostname = ''n1'', x_read_count = 2, x_write_count = 3,
       x_read_segments = ''reads9'', x_write_segments = ''writes9''\<rparr>,
      \<lparr>x_id = 10, x_rank = 1, x_hostname = ''n2'', x_read_count = 0, x_write_count = 1,
       x_read_segments = ''reads10'', x_write_segments = ''writes10''\<rparr>]"

definition dxt_records_clash :: "string dxt_record list" where
  "dxt_records_clash =
     [\<lparr>x_id = 9, x_rank = 0, x_hostname = ''n1'', x_read_count = 2, x_write_count = 3,
       x_read_segments = ''reads9'', x_write_segments = ''writes9''\<rparr>,
      \<lparr>x_id = 9, x_rank = 1, x_hostname = ''n2'', x_read_count = 0, x_write_count = 1,
       x_read_segments = ''other_reads'', x_write_segments = ''other_writes''\<rparr>]"

definition lustre_old :: "string counters_record" where
  "lustre_old = \<lparr>r_rank = 0, r_id = 7, r_counters = ''old''\<rparr>"

definition lustre_new :: "string counters_record" where
  "lustre_new = \<lparr>r_rank = 0, r_id = 7, r_counters = ''new''\<rparr>"

definition posix_old :: "string fcounters_record" where
  "posix_old = \<lparr>r_rank = 0, r_id = 7, r_counters = ''old'', r_fcounters = ''fold''\<rparr>"

definition posix_new :: "string fcounters_record" where
  "posix_new = \<lparr>r_rank = 0, r_id = 7, r_counters = ''new'', r_fcounters = ''fnew''\<rparr>"

section \<open>Properties of the record collections\<close>

lemma update_fresh: "k \<notin> fst ` set al \<Longrightarrow> AList.update k v al = al @ [(k, v)]"
  by (induction al) auto

lemma map_of_by_id:
  "distinct (map f rs) \<Longrightarrow> r \<in> set rs \<Longrightarrow> map_of (map (\<lambda>r. (f r, g r)) rs) (f r) = Some (g r)"
  by (induction rs) (auto simp: image_iff)

lemma map_of_rev_last:
  "\<forall>z \<in> set zs. f z \<noteq> f b \<Longrightarrow>
   map_of (rev (map (\<lambda>r. (f r, g r)) (xs @ b # zs))) (f b) = Some (g b)"
  by (induction zs rule: rev_induct) (auto simp: map_add_def)

lemma io_for_map: "io_for body (map f xs) = io_for (\<lambda>x. body (f x)) xs"
  by (induction xs) auto

lemma io_for_all_ok:
  "(\<And>x. x \<in> set xs \<Longrightarrow> body x = (g x, None)) \<Longrightarrow> io_for body xs = (concat (map g xs), None)"
  by (induction xs) (auto simp: io_seq_def)

text \<open>
  The constructor loop of the detailed-segment collection in closed form, for any
  starting object whose two dictionaries have the same keys: it fails exactly when an
  \<^verbatim>\<open>id\<close> repeats or is already a key, and otherwise appends one entry per record.
\<close>

lemma DXT_POSIX_coll_loop_closed:
  "map fst (dxt_write_segments s) = map fst (dxt_read_segments s) \<Longrightarrow>
   DXT_POSIX_coll_loop rs s =
     (if distinct (map x_id rs) \<and> set (map x_id rs) \<inter> fst ` set (dxt_read_segments s) = {}
      then Inr \<lparr>dxt_metadata = dxt_metadata s @
                   map (\<lambda>r. DXT_POSIX_metadata_init (x_id r) (x_rank r) (x_hostname r)
                               (x_read_count r) (x_write_count r)) rs,
                 dxt_read_segments =
                   dxt_read_segments s @ map (\<lambda>r. (x_id r, x_read_segments r)) rs,
                 dxt_write_segments =
                   dxt_write_segments s @ map (\<lambda>r. (x_id r, x_write_segments r)) rs\<rparr>
      else Inl RecordIdsNotUnique)"
proof (induction rs arbitrary: s)
  case Nil
  then show ?case by simp
next
  case (Cons r rs)
  let ?md = "DXT_POSIX_metadata_init (x_id r) (x_rank r) (x_hostname r)
               (x_read_count r) (x_write_count r)"
  have id: "md_id ?md = x_id r" by (simp add: DXT_POSIX_metadata_init_def)
  show ?case
  proof (cases "x_id r \<in> fst ` set (dxt_read_segments s)")
    case True
    then show ?thesis by (auto simp: id Let_def)
  next
    case False
    with Cons.prems have fw: "x_id r \<notin> fst ` set (dxt_write_segments s)"
      by (metis set_map)
    let ?s' = "s\<lparr>dxt_metadata := dxt_metadata s @ [?md],
                   dxt_read_segments := dxt_read_segments s @ [(x_id r, x_read_segments r)],
                   dxt_write_segments := dxt_write_segments s @ [(x_id r, x_write_segments r)]\<rparr>"
    have step: "DXT_POSIX_coll_loop (r # rs) s = DXT_POSIX_coll_loop rs ?s'"
      using False fw by (simp add: id Let_def update_fresh)
    have inv: "map fst (dxt_write_segments ?s') = map fst (dxt_read_segments ?s')"
      using Cons.prems by simp
    show ?thesis
      unfolding step Cons.IH [OF inv] using False by auto
  qed
qed

lemma DXT_POSIX_coll_init_closed:
  "DXT_POSIX_coll_init rs =
     (if distinct (map x_id rs)
      then Inr \<lparr>dxt_metadata =
                   map (\<lambda>r. DXT_POSIX_metadata_init (x_id r) (x_rank r) (x_hostname r)
                               (x_read_count r) (x_write_count r)) rs,
                 dxt_read_segments = map (\<lambda>r. (x_id r, x_read_segments r)) rs,
                 dxt_write_segments = map (\<lambda>r. (x_id r, x_write_segments r)) rs\<rparr>
      else Inl RecordIdsNotUnique)"
  unfolding DXT_POSIX_coll_init_def by (subst DXT_POSIX_coll_loop_closed) auto

lemma DXT_POSIX_coll_export_closed:
  assumes "DXT_POSIX_coll_init rs = Inr c"
  shows "DXT_POSIX_coll_export_parquet c directory prefix =
     (concat (map (\<lambda>r.
        [ToParquet (os_path_join directory
           (''DXTPOSIX_'' @ prefix @ ''_'' @
            str_join ''_'' [str_int (x_id r), str_int (x_rank r), x_hostname r] @
            ''_read_segments.parquet'')) (x_read_segments r),
         ToParquet (os_path_join directory
           (''DXTPOSIX_'' @ prefix @ ''_'' @
            str_join ''_'' [str_int (x_id r), str_int (x_rank r), x_hostname r] @
            ''_write_segments.parquet'')) (x_write_segments r)]) rs), None)"
proof -
  let ?mk = "\<lambda>r. DXT_POSIX_metadata_init (x_id r) (x_rank r) (x_hostname r)
                      (x_read_count r) (x_write_count r)"
  from assms have d: "distinct (map x_id rs)"
    and c: "c = \<lparr>dxt_metadata = map ?mk rs,
                  dxt_read_segments = map (\<lambda>r. (x_id r, x_read_segments r)) rs,
                  dxt_write_segments = map (\<lambda>r. (x_id r, x_write_segments r)) rs\<rparr>"
    by (auto simp: DXT_POSIX_coll_init_closed split: if_splits)
  show ?thesis
    unfolding DXT_POSIX_coll_export_parquet_def c Let_def
    apply (simp only: DXT_POSIX_coll.simps io_for_map)
    apply (rule io_for_all_ok)
    apply (simp add: map_of_by_id [OF d] io_seq_def to_filename_def DXT_POSIX_metadata_init_def)
    done
qed

text \<open>
  The constructor loops of the counters collections in closed form: the identity list
  grows by one entry per record, and a lookup finds the table of the last record with
  that identity.
\<close>

lemma counters_coll_loop_closed:
  "cc_metadata (counters_coll_loop rs s) = cc_metadata s @ map (\<lambda>r. (r_rank r, r_id r)) rs \<and>
   map_of (cc_counters (counters_coll_loop rs s)) =
     map_of (cc_counters s) ++ map_of (rev (map (\<lambda>r. ((r_rank r, r_id r), r_counters r)) rs))"
  by (induction rs arbitrary: s)
    (auto simp: update_conv' Let_def map_add_def fun_eq_iff split: option.splits)

lemma fcounters_coll_loop_closed:
  "cc_metadata (fcounters_coll_loop rs s) = cc_metadata s @ map (\<lambda>r. (r_rank r, r_id r)) rs \<and>
   map_of (cc_counters (fcounters_coll_loop rs s)) =
     map_of (cc_counters s) ++ map_of (rev (map (\<lambda>r. ((r_rank r, r_id r), r_counters r)) rs)) \<and>
   map_of (cc_fcounters (fcounters_coll_loop rs s)) =
     map_of (cc_fcounters s) ++ map_of (rev (map (\<lambda>r. ((r_rank r, r_id r), r_fcounters r)) rs))"
  by (induction rs arbitrary: s)
    (auto simp: update_conv' Let_def map_add_def fun_eq_iff split: option.splits)

lemma counters_coll_init_closed:
  "cc_metadata (counters_coll_init rs) = map (\<lambda>r. (r_rank r, r_id r)) rs"
  "map_of (cc_counters (counters_coll_init rs)) =
     map_of (rev (map (\<lambda>r. ((r_rank r, r_id r), r_counters r)) rs))"
  by (simp_all add: counters_coll_init_def counters_coll_loop_closed)

lemma fcounters_coll_init_closed:
  "cc_metadata (fcounters_coll_init rs) = map (\<lambda>r. (r_rank r, r_id r)) rs"
  "map_of (cc_counters (fcounters_coll_init rs)) =
     map_of (rev (map (\<lambda>r. ((r_rank r, r_id r), r_counters r)) rs))"
  "map_of (cc_fcounters (fcounters_coll_init rs)) =
     map_of (rev (map (\<lambda>r. ((r_rank r, r_id r), r_fcounters r)) rs))"
  by (simp_all add: fcounters_coll_init_def fcounters_coll_loop_closed)

text \<open>
  Claim C3. For a list of detailed-segment records whose \<^verbatim>\<open>id\<close> values are pairwise
  distinct, \<^verbatim>\<open>DXT_POSIX_coll\<close> is constructed and the read and write segment tables
  stored under each record's \<^verbatim>\<open>id\<close> are that record's tables; for a list in which an
  \<^verbatim>\<open>id\<close> repeats, construction raises the uniqueness error.
\<close>

theorem DXT_POSIX_coll_unique_ids:
  "(distinct (map x_id rs) \<longrightarrow>
      (\<exists>c. DXT_POSIX_coll_init rs = Inr c \<and>
           (\<forall>r \<in> set rs. map_of (dxt_read_segments c) (x_id r) = Some (x_read_segments r) \<and>
                          map_of (dxt_write_segments c) (x_id r) = Some (x_write_segments r)))) \<and>
   (\<not> distinct (map x_id rs) \<longrightarrow> DXT_POSIX_coll_init rs = Inl RecordIdsNotUnique)"
  by (simp add: DXT_POSIX_coll_init_closed map_of_by_id)

theorem DXT_POSIX_coll_unique_ids_witness:
  "distinct (map x_id dxt_records_distinct) \<and>
   (\<exists>c. DXT_POSIX_coll_init dxt_records_distinct = Inr c \<and>
        map_of (dxt_read_segments c) 9 = Some ''reads9'' \<and>
        map_of (dxt_write_segments c) 9 = Some ''writes9'' \<and>
        map_of (dxt_read_segments c) 10 = Some ''reads10'' \<and>
        map_of (dxt_write_segments c) 10 = Some ''writes10'') \<and>
   \<not> distinct (map x_id dxt_records_clash) \<and>
   DXT_POSIX_coll_init dxt_records_clash = Inl RecordIdsNotUnique"
proof -
  have d: "distinct (map x_id dxt_records_distinct)"
    by (simp add: dxt_records_distinct_def)
  have n: "\<not> distinct (map x_id dxt_records_clash)"
    by (simp add: dxt_records_clash_def)
  from d DXT_POSIX_coll_unique_ids [of dxt_records_distinct]
  obtain c where c: "DXT_POSIX_coll_init dxt_records_distinct = Inr c"
    and t: "\<forall>r \<in> set dxt_records_distinct.
              map_of (dxt_read_segments c) (x_id r) = Some (x_read_segments r) \<and>
              map_of (dxt_write_segments c) (x_id r) = Some (x_write_segments r)"
    by blast
  from t have "map_of (dxt_read_segments c) 9 = Some ''reads9'' \<and>
        map_of (dxt_write_segments c) 9 = Some ''writes9'' \<and>
        map_of (dxt_read_segments c) 10 = Some ''reads10'' \<and>
        map_of (dxt_write_segments c) 10 = Some ''writes10''"
    by (simp add: dxt_records_distinct_def)
  with c d n DXT_POSIX_coll_unique_ids [of dxt_records_clash] show ?thesis
    by blast
qed

text \<open>
  Claim C4. The counters-only and the counters plus float-counters builders raise no
  error (they are total functions into the collection type). When two records of the
  list have the same \<^verbatim>\<open>(rank, id)\<close> identity and no record after the later one has
  it, the identity list still has one entry per record, and the table (for the second
  builder both tables) stored under that identity is the later record's.
\<close>

theorem counters_coll_later_record_overwrites:
  fixes a b :: "('df, 'r) counters_record_scheme"
    and a' b' :: "('df, 'r) fcounters_record_scheme"
  shows
  "((r_rank a, r_id a) = (r_rank b, r_id b) \<and>
    (\<forall>z \<in> set zs. (r_rank z, r_id z) \<noteq> (r_rank b, r_id b)) \<longrightarrow>
      cc_metadata (counters_coll_init (xs @ a # ys @ b # zs)) =
        map (\<lambda>r. (r_rank r, r_id r)) (xs @ a # ys @ b # zs) \<and>
      map_of (cc_counters (counters_coll_init (xs @ a # ys @ b # zs))) (r_rank a, r_id a)
        = Some (r_counters b)) \<and>
   ((r_rank a', r_id a') = (r_rank b', r_id b') \<and>
    (\<forall>z \<in> set zs'. (r_rank z, r_id z) \<noteq> (r_rank b', r_id b')) \<longrightarrow>
      cc_metadata (fcounters_coll_init (xs' @ a' # ys' @ b' # zs')) =
        map (\<lambda>r. (r_rank r, r_id r)) (xs' @ a' # ys' @ b' # zs') \<and>
      map_of (cc_counters (fcounters_coll_init (xs' @ a' # ys' @ b' # zs'))) (r_rank a', r_id a')
        = Some (r_counters b') \<and>
      map_of (cc_fcounters (fcounters_coll_init (xs' @ a' # ys' @ b' # zs'))) (r_rank a', r_id a')
        = Some (r_fcounters b'))"
proof (intro conjI impI)
  assume h: "(r_rank a, r_id a) = (r_rank b, r_id b) \<and>
    (\<forall>z \<in> set zs. (r_rank z, r_id z) \<noteq> (r_rank b, r_id b))"
  show "cc_metadata (counters_coll_init (xs @ a # ys @ b # zs)) =
        map (\<lambda>r. (r_rank r, r_id r)) (xs @ a # ys @ b # zs)"
    by (rule counters_coll_init_closed(1))
  have "map_of (rev (map (\<lambda>r. ((r_rank r, r_id r), r_counters r)) ((xs @ a # ys) @ b # zs)))
          (r_rank b, r_id b) = Some (r_counters b)"
    using h by (intro map_of_rev_last) simp
  then show "map_of (cc_counters (counters_coll_init (xs @ a # ys @ b # zs))) (r_rank a, r_id a)
        = Some (r_counters b)"
    using h by (simp add: counters_coll_init_closed(2))
next
  assume h: "(r_rank a', r_id a') = (r_rank b', r_id b') \<and>
    (\<forall>z \<in> set zs'. (r_rank z, r_id z) \<noteq> (r_rank b', r_id b'))"
  show "cc_metadata (fcounters_coll_init (xs' @ a' # ys' @ b' # zs')) =
        map (\<lambda>r. (r_rank r, r_id r)) (xs' @ a' # ys' @ b' # zs')"
    by (rule fcounters_coll_init_closed(1))
  have "map_of (rev (map (\<lambda>r. ((r_rank r, r_id r), r_counters r)) ((xs' @ a' # ys') @ b' # zs')))
          (r_rank b', r_id b') = Some (r_counters b')"
    using h by (intro map_of_rev_last) simp
  then show "map_of (cc_counters (fcounters_coll_init (xs' @ a' # ys' @ b' # zs')))
               (r_rank a', r_id a') = Some (r_counters b')"
    using h by (simp add: fcounters_coll_init_closed(2))
  have "map_of (rev (map (\<lambda>r. ((r_rank r, r_id r), r_fcounters r)) ((xs' @ a' # ys') @ b' # zs')))
          (r_rank b', r_id b') = Some (r_fcounters b')"
    using h by (intro map_of_rev_last) simp
  then show "map_of (cc_fcounters (fcounters_coll_init (xs' @ a' # ys' @ b' # zs')))
               (r_rank a', r_id a') = Some (r_fcounters b')"
    using h by (simp add: fcounters_coll_init_closed(3))
qed

theorem counters_coll_later_record_overwrites_witness:
  "cc_metadata (counters_coll_init [lustre_old, lustre_new]) = [(0, 7), (0, 7)] \<and>
   map_of (cc_counters (counters_coll_init [lustre_old, lustre_new])) (0, 7) = Some ''new'' \<and>
   cc_metadata (fcounters_coll_init [posix_old, posix_new]) = [(0, 7), (0, 7)] \<and>
   map_of (cc_counters (fcounters_coll_init [posix_old, posix_new])) (0, 7) = Some ''new'' \<and>
   map_of (cc_fcounters (fcounters_coll_init [posix_old, posix_new])) (0, 7) = Some ''fnew''"
  using counters_coll_later_record_overwrites
          [of lustre_old lustre_new "[]" "[]" "[]" posix_old posix_new "[]" "[]" "[]"]
  by (simp add: lustre_old_def lustre_new_def posix_old_def posix_new_def)

text \<open>
  Claim C5. Exporting the LUSTRE collection built from the single record with rank 0
  and id 7, with batch prefix \<open>u1_42\<close>, writes exactly one file, named
  \<open>LUSTRE_u1_42_0_7_counters.parquet\<close> in the export directory; exporting the counters
  plus float-counters collection of the same record under the module name LUSTRE
  writes exactly two files, that one and then \<open>LUSTRE_u1_42_0_7_fcounters.parquet\<close>.
\<close>

theorem export_parquet_LUSTRE_file_names:
  "export_parquet (LUSTRE_coll (counters_coll_init [\<lparr>r_rank = 0, r_id = 7, r_counters = c\<rparr>]))
       directory ''u1_42''
     = ([ToParquet (os_path_join directory ''LUSTRE_u1_42_0_7_counters.parquet'') c], None)
   \<and> fcounters_coll_export_parquet
       (fcounters_coll_init [\<lparr>r_rank = 0, r_id = 7, r_counters = c, r_fcounters = f\<rparr>])
       ''LUSTRE'' directory ''u1_42''
     = ([ToParquet (os_path_join directory ''LUSTRE_u1_42_0_7_counters.parquet'') c,
         ToParquet (os_path_join directory ''LUSTRE_u1_42_0_7_fcounters.parquet'') f], None)"
  by (simp add: counters_coll_init_def fcounters_coll_init_def counters_coll_export_parquet_def
      fcounters_coll_export_parquet_def file_fillers_def io_seq_def str_int_def str_nat.simps
      digit_def Let_def)

text \<open>
  Claim C9. When the detailed-segment collection is constructed, the metadata object
  kept for each record has the record's \<^verbatim>\<open>read_count\<close> in its \<^verbatim>\<open>write_count\<close> field
  and the record's \<^verbatim>\<open>write_count\<close> in its \<^verbatim>\<open>read_count\<close> field, while \<^verbatim>\<open>id\<close>,
  \<^verbatim>\<open>rank\<close> and \<^verbatim>\<open>hostname\<close> are the record's own; \<^verbatim>\<open>to_filename\<close> and the names of
  the exported files are built from those three fields alone.
\<close>

theorem DXT_POSIX_metadata_counts_swapped:
  assumes "DXT_POSIX_coll_init rs = Inr c"
  shows "dxt_metadata c =
           map (\<lambda>r. \<lparr>md_id = x_id r, md_rank = x_rank r, md_hostname = x_hostname r,
                      md_write_count = x_read_count r, md_read_count = x_write_count r\<rparr>) rs
         \<and> map to_filename (dxt_metadata c) =
           map (\<lambda>r. str_join ''_'' [str_int (x_id r), str_int (x_rank r), x_hostname r]) rs
         \<and> DXT_POSIX_coll_export_parquet c directory prefix =
           (concat (map (\<lambda>r.
              [ToParquet (os_path_join directory
                 (''DXTPOSIX_'' @ prefix @ ''_'' @
                  str_join ''_'' [str_int (x_id r), str_int (x_rank r), x_hostname r] @
                  ''_read_segments.parquet'')) (x_read_segments r),
               ToParquet (os_path_join directory
                 (''DXTPOSIX_'' @ prefix @ ''_'' @
                  str_join ''_'' [str_int (x_id r), str_int (x_rank r), x_hostname r] @
                  ''_write_segments.parquet'')) (x_write_segments r)]) rs), None)"
proof -
  have 1: "dxt_metadata c =
           map (\<lambda>r. \<lparr>md_id = x_id r, md_rank = x_rank r, md_hostname = x_hostname r,
                      md_write_count = x_read_count r, md_read_count = x_write_count r\<rparr>) rs"
    using assms
    by (auto simp: DXT_POSIX_coll_init_closed DXT_POSIX_metadata_init_def split: if_splits)
  have 2: "map to_filename (dxt_metadata c) =
           map (\<lambda>r. str_join ''_'' [str_int (x_id r), str_int (x_rank r), x_hostname r]) rs"
    unfolding 1 by (simp add: to_filename_def)
  show ?thesis using 1 2 DXT_POSIX_coll_export_closed [OF assms] by blast
qed

theorem DXT_POSIX_metadata_counts_swapped_witness:
  "DXT_POSIX_coll_init (rp_records_DXT_POSIX report_dxt) =
     Inr \<lparr>dxt_metadata = [\<lparr>md_id = 9, md_rank = 0, md_hostname = ''n1'',
                            md_write_count = 2, md_read_count = 3\<rparr>],
          dxt_read_segments = [(9, ''reads'')], dxt_write_segments = [(9, ''writes'')]\<rparr>
   \<and> map to_filename [\<lparr>md_id = 9, md_rank = 0, md_hostname = ''n1'',
                        md_write_count = 2, md_read_count = 3\<rparr>] = [''9_0_n1'']
   \<and> DXT_POSIX_coll_export_parquet
        \<lparr>dxt_metadata = [\<lparr>md_id = 9, md_rank = 0, md_hostname = ''n1'',
                            md_write_count = 2, md_read_count = 3\<rparr>],
          dxt_read_segments = [(9, ''reads'')], dxt_write_segments = [(9, ''writes'')]\<rparr>
        ''out'' ''2_43''
      = ([ToParquet ''out/DXTPOSIX_2_43_9_0_n1_read_segments.parquet'' ''reads'',
          ToParquet ''out/DXTPOSIX_2_43_9_0_n1_write_segments.parquet'' ''writes''], None)"
proof -
  have h: "DXT_POSIX_coll_init (rp_records_DXT_POSIX report_dxt) =
     Inr \<lparr>dxt_metadata = [\<lparr>md_id = 9, md_rank = 0, md_hostname = ''n1'',
                            md_write_count = 2, md_read_count = 3\<rparr>],
          dxt_read_segments = [(9, ''reads'')], dxt_write_segments = [(9, ''writes'')]\<rparr>"
    by (simp add: report_dxt_def DXT_POSIX_coll_init_def DXT_POSIX_metadata_init_def)
  show ?thesis
    using h DXT_POSIX_metadata_counts_swapped [OF h, of "''out''" "''2_43''"]
    by (simp add: report_dxt_def str_int_def str_nat.simps digit_def os_path_join_def)
qed

section \<open>Properties of the log directory scanner\<close>

lemma splitext_concat: "fst (splitext p) @ snd (splitext p) = p"
  by (simp add: splitext_def Let_def)

lemma splitext_darshan_suffix:
  assumes "snd (splitext f) = ''.darshan''"
  shows "\<exists>stem. f = stem @ ''.darshan''"
  using splitext_concat [of f] assms by metis

lemma splitext_partial:
  "snd (splitext (stem @ ''.darshan_partial'')) \<noteq> ''.darshan''"
proof
  assume "snd (splitext (stem @ ''.darshan_partial'')) = ''.darshan''"
  then obtain s where "stem @ ''.darshan_partial'' = s @ ''.darshan''"
    using splitext_darshan_suffix by blast
  then have "last (stem @ ''.darshan_partial'') = last (s @ ''.darshan'')" by simp
  then show False by simp
qed

text \<open>
  Claim C6. For a path that exists and is a directory, \<^verbatim>\<open>collect_logfiles\<close> returns
  the entries of \<^verbatim>\<open>os.listdir\<close>, in its order, that are regular files and whose
  \<^verbatim>\<open>os.path.splitext\<close> extension is exactly \<open>.darshan\<close>; every returned name ends in
  \<open>.darshan\<close> and no name ending in \<open>.darshan_partial\<close> is returned. For the directory
  holding the regular files \<open>a.darshan\<close>, \<open>b.darshan_partial\<close> and \<open>c.txt\<close> the result
  is \<open>a.darshan\<close> alone, as the second theorem evaluates.
\<close>

theorem collect_logfiles_darshan_only:
  assumes "path_exists w directory" and "path_isdir w directory"
  shows "\<exists>logfiles. collect_logfiles w directory = Inr logfiles \<and>
           logfiles = filter (\<lambda>f. path_isfile w (os_path_join directory f) \<and>
                                   snd (splitext f) = ''.darshan'') (listdir w directory) \<and>
           (\<forall>f \<in> set logfiles. \<exists>stem. f = stem @ ''.darshan'') \<and>
           (\<forall>stem. stem @ ''.darshan_partial'' \<notin> set logfiles)"
  using assms
  by (auto simp: collect_logfiles_def Let_def splitext_partial dest: splitext_darshan_suffix)

theorem collect_logfiles_darshan_only_witness:
  "path_exists example_world ''logs'' \<and> path_isdir example_world ''logs'' \<and>
   listdir example_world ''logs'' = [''a.darshan'', ''b.darshan_partial'', ''c.txt''] \<and>
   path_isfile example_world ''logs/a.darshan'' \<and>
   path_isfile example_world ''logs/b.darshan_partial'' \<and>
   path_isfile example_world ''logs/c.txt'' \<and>
   collect_logfiles example_world ''logs'' = Inr [''a.darshan'']"
proof -
  have e: "path_exists example_world ''logs''" and d: "path_isdir example_world ''logs''"
    by (simp_all add: example_world_def)
  have s: "snd (splitext ''a.darshan'') = ''.darshan''"
     "snd (splitext ''b.darshan_partial'') = ''.darshan_partial''"
     "snd (splitext ''c.txt'') = ''.txt''"
    by (simp_all add: splitext_def rfind_def Let_def)
  show ?thesis
    using collect_logfiles_darshan_only [OF e d] s
    by (simp add: example_world_def os_path_join_def)
qed

section \<open>Exports of well-formed collections\<close>

lemma io_for_snd_None:
  "(\<And>x. x \<in> set xs \<Longrightarrow> snd (body x) = None) \<Longrightarrow> snd (io_for body xs) = None"
  by (induction xs) (auto simp: io_seq_def)

lemma counters_export_ok:
  "set (cc_metadata c) \<subseteq> fst ` set (cc_counters c) \<Longrightarrow>
   snd (counters_coll_export_parquet c m d p) = None"
  unfolding counters_coll_export_parquet_def file_fillers_def
  apply (simp add: Let_def)
  apply (rule io_for_snd_None)
  apply (auto simp: map_of_eq_None_iff split: option.splits)
  done

lemma fcounters_export_ok:
  "set (cc_metadata c) \<subseteq> fst ` set (cc_counters c) \<Longrightarrow>
   set (cc_metadata c) \<subseteq> fst ` set (cc_fcounters c) \<Longrightarrow>
   snd (fcounters_coll_export_parquet c m d p) = None"
  unfolding fcounters_coll_export_parquet_def file_fillers_def
  apply (simp add: Let_def io_seq_def counters_export_ok)
  apply (rule io_for_snd_None)
  apply (auto simp: map_of_eq_None_iff split: option.splits)
  done

lemma DXT_export_ok:
  "md_id ` set (dxt_metadata c) \<subseteq> fst ` set (dxt_read_segments c) \<Longrightarrow>
   md_id ` set (dxt_metadata c) \<subseteq> fst ` set (dxt_write_segments c) \<Longrightarrow>
   snd (DXT_POSIX_coll_export_parquet c d p) = None"
  unfolding DXT_POSIX_coll_export_parquet_def
  apply (simp add: Let_def)
  apply (rule io_for_snd_None)
  apply (auto simp: map_of_eq_None_iff io_seq_def split: option.splits)
  done

lemma coll_ok_export: "coll_ok c \<Longrightarrow> snd (export_parquet c d p) = None"
  by (cases c) (simp_all add: counters_export_ok fcounters_export_ok DXT_export_ok)

lemma counters_coll_init_ok:
  "set (cc_metadata (counters_coll_init rs)) \<subseteq> fst ` set (cc_counters (counters_coll_init rs))"
proof
  fix k assume "k \<in> set (cc_metadata (counters_coll_init rs))"
  then have "k \<in> (\<lambda>r. (r_rank r, r_id r)) ` set rs" by (simp add: counters_coll_init_closed)
  then have "map_of (rev (map (\<lambda>r. ((r_rank r, r_id r), r_counters r)) rs)) k \<noteq> None"
    by (simp add: map_of_eq_None_iff image_image)
  then have "map_of (cc_counters (counters_coll_init rs)) k \<noteq> None"
    by (simp add: counters_coll_init_closed)
  then show "k \<in> fst ` set (cc_counters (counters_coll_init rs))"
    by (simp add: map_of_eq_None_iff)
qed

lemma fcounters_coll_init_ok:
  "set (cc_metadata (fcounters_coll_init rs)) \<subseteq> fst ` set (cc_counters (fcounters_coll_init rs))"
  "set (cc_metadata (fcounters_coll_init rs)) \<subseteq> fst ` set (cc_fcounters (fcounters_coll_init rs))"
proof -
  have *: "map_of (cc_counters (fcounters_coll_init rs)) k \<noteq> None \<and>
           map_of (cc_fcounters (fcounters_coll_init rs)) k \<noteq> None"
    if "k \<in> set (cc_metadata (fcounters_coll_init rs))" for k
  proof -
    from that have k: "k \<in> (\<lambda>r. (r_rank r, r_id r)) ` set rs"
      by (simp add: fcounters_coll_init_closed)
    then have "map_of (rev (map (\<lambda>r. ((r_rank r, r_id r), r_counters r)) rs)) k \<noteq> None"
      by (simp add: map_of_eq_None_iff image_image)
    moreover from k
    have "map_of (rev (map (\<lambda>r. ((r_rank r, r_id r), r_fcounters r)) rs)) k \<noteq> None"
      by (simp add: map_of_eq_None_iff image_image)
    ultimately show ?thesis by (simp add: fcounters_coll_init_closed)
  qed
  show "set (cc_metadata (fcounters_coll_init rs)) \<subseteq> fst ` set (cc_counters (fcounters_coll_init rs))"
    using * by (auto simp: map_of_eq_None_iff)
  show "set (cc_metadata (fcounters_coll_init rs)) \<subseteq> fst ` set (cc_fcounters (fcounters_coll_init rs))"
    using * by (auto simp: map_of_eq_None_iff)
qed

lemma DXT_POSIX_coll_init_ok:
  "DXT_POSIX_coll_init rs = Inr c \<Longrightarrow> coll_ok (DXT_POSIX_coll_object c)"
  by (auto simp: DXT_POSIX_coll_init_closed DXT_POSIX_metadata_init_def image_image
      split: if_splits)

lemma export_modules_loop_ok:
  "list_all (\<lambda>m. case map_of r m of Some (Coll c) \<Rightarrow> coll_ok c | _ \<Rightarrow> False) l \<Longrightarrow>
   io_for (\<lambda>m. case map_of r m of
                  None \<Rightarrow> ([], Some KeyError)
                | Some (Coll c) \<Rightarrow> export_parquet c d n
                | Some _ \<Rightarrow> ([], Some AttributeError)) l =
     (concat (map (\<lambda>c. fst (export_parquet c d n))
        (List.map_filter (\<lambda>m. case map_of r m of Some (Coll c) \<Rightarrow> Some c | _ \<Rightarrow> None) l)), None)"
proof (induction l)
  case Nil
  then show ?case by (simp add: map_filter_simps)
next
  case (Cons m l)
  from Cons.prems obtain c where c: "map_of r m = Some (Coll c)" and ok: "coll_ok c"
    by (auto split: option.splits outval.splits)
  from Cons have IH: "io_for (\<lambda>m. case map_of r m of
                  None \<Rightarrow> ([], Some KeyError)
                | Some (Coll c) \<Rightarrow> export_parquet c d n
                | Some _ \<Rightarrow> ([], Some AttributeError)) l =
     (concat (map (\<lambda>c. fst (export_parquet c d n))
        (List.map_filter (\<lambda>m. case map_of r m of Some (Coll c) \<Rightarrow> Some c | _ \<Rightarrow> None) l)), None)"
    by simp
  show ?case
    using coll_ok_export [OF ok, of d n]
    by (simp add: c IH io_seq_def map_filter_simps)
qed

lemma job_record_ok_export:
  "job_record_ok r \<Longrightarrow>
   export_loaded_modules r d n =
     (concat (map (\<lambda>c. fst (export_parquet c d n)) (loaded_colls r)), None)"
  unfolding job_record_ok_def export_loaded_modules_def loaded_colls_def
  by (auto split: option.splits outval.splits simp: export_modules_loop_ok)

section \<open>Properties of the trace reader\<close>

text \<open>
  The dictionary \<^verbatim>\<open>read_log\<close> returns, entry by entry: the two fixed entries, one
  entry for each of POSIX, LUSTRE and STDIO that is among the modules, the
  detailed-segment entry when DXT_POSIX is, and the two closing entries.
\<close>

lemma read_log_closed:
  assumes "read_log w filename = Inr out"
  shows "path_exists w filename \<and> path_isfile w filename \<and>
    (\<exists>dx. (if ''DXT_POSIX'' \<in> set (rp_modules (DarshanReport w filename))
           then \<exists>c. DXT_POSIX_coll_init (rp_records_DXT_POSIX (DarshanReport w filename)) = Inr c \<and>
                    dx = [(''DXT_POSIX_coll_object'', Coll (DXT_POSIX_coll_object c))]
           else dx = []) \<and>
     out = [(''metadata'', MetadataV (rp_metadata (DarshanReport w filename))),
            (''modules'', StrList (rp_modules (DarshanReport w filename)))] @
           (if ''POSIX'' \<in> set (rp_modules (DarshanReport w filename))
            then [(''POSIX_coll'', Coll (POSIX_coll (fcounters_coll_init
                     (rp_records_POSIX (DarshanReport w filename)))))] else []) @
           (if ''LUSTRE'' \<in> set (rp_modules (DarshanReport w filename))
            then [(''LUSTRE_coll'', Coll (LUSTRE_coll (counters_coll_init
                     (rp_records_LUSTRE (DarshanReport w filename)))))] else []) @
           (if ''STDIO'' \<in> set (rp_modules (DarshanReport w filename))
            then [(''STDIO_coll'', Coll (STDIO_coll (fcounters_coll_init
                     (rp_records_STDIO (DarshanReport w filename)))))] else []) @
           dx @
           [(''report'', ReportV (DarshanReport w filename)),
            (''loaded_modules'', StrList
               ((if ''POSIX'' \<in> set (rp_modules (DarshanReport w filename))
                 then [''POSIX_coll''] else []) @
                (if ''LUSTRE'' \<in> set (rp_modules (DarshanReport w filename))
                 then [''LUSTRE_coll''] else []) @
                (if ''STDIO'' \<in> set (rp_modules (DarshanReport w filename))
                 then [''STDIO_coll''] else []) @
                map fst dx))])"
  using assms
  by (auto simp: read_log_def Let_def split: if_splits sum.splits)

lemma read_log_lookups:
  assumes a: "read_log w filename = Inr out"
  shows "map_of out ''metadata'' = Some (MetadataV (rp_metadata (DarshanReport w filename)))"
    and "map_of out ''modules'' = Some (StrList (rp_modules (DarshanReport w filename)))"
    and "map_of out ''report'' = Some (ReportV (DarshanReport w filename))"
    and "map_of out ''POSIX_coll'' =
           (if ''POSIX'' \<in> set (rp_modules (DarshanReport w filename))
            then Some (Coll (POSIX_coll (fcounters_coll_init
                     (rp_records_POSIX (DarshanReport w filename))))) else None)"
    and "map_of out ''LUSTRE_coll'' =
           (if ''LUSTRE'' \<in> set (rp_modules (DarshanReport w filename))
            then Some (Coll (LUSTRE_coll (counters_coll_init
                     (rp_records_LUSTRE (DarshanReport w filename))))) else None)"
    and "map_of out ''STDIO_coll'' =
           (if ''STDIO'' \<in> set (rp_modules (DarshanReport w filename))
            then Some (Coll (STDIO_coll (fcounters_coll_init
                     (rp_records_STDIO (DarshanReport w filename))))) else None)"
    and "''DXT_POSIX'' \<notin> set (rp_modules (DarshanReport w filename)) \<Longrightarrow>
           map_of out ''DXT_POSIX_coll_object'' = None"
    and "''DXT_POSIX'' \<in> set (rp_modules (DarshanReport w filename)) \<Longrightarrow>
           \<exists>c. DXT_POSIX_coll_init (rp_records_DXT_POSIX (DarshanReport w filename)) = Inr c \<and>
               map_of out ''DXT_POSIX_coll_object'' = Some (Coll (DXT_POSIX_coll_object c))"
    and "map_of out ''loaded_modules'' = Some (StrList
               ((if ''POSIX'' \<in> set (rp_modules (DarshanReport w filename))
                 then [''POSIX_coll''] else []) @
                (if ''LUSTRE'' \<in> set (rp_modules (DarshanReport w filename))
                 then [''LUSTRE_coll''] else []) @
                (if ''STDIO'' \<in> set (rp_modules (DarshanReport w filename))
                 then [''STDIO_coll''] else []) @
                (if ''DXT_POSIX'' \<in> set (rp_modules (DarshanReport w filename))
                 then [''DXT_POSIX_coll_object''] else [])))"
    and "fst ` set out \<subseteq> {''metadata'', ''modules'', ''POSIX_coll'', ''LUSTRE_coll'', ''STDIO_coll'',
                         ''DXT_POSIX_coll_object'', ''report'', ''loaded_modules''}"
proof -
  define P where "P = (''POSIX'' \<in> set (rp_modules (DarshanReport w filename)))"
  define L where "L = (''LUSTRE'' \<in> set (rp_modules (DarshanReport w filename)))"
  define S where "S = (''STDIO'' \<in> set (rp_modules (DarshanReport w filename)))"
  define D where "D = (''DXT_POSIX'' \<in> set (rp_modules (DarshanReport w filename)))"
  from read_log_closed [OF a, folded P_def L_def S_def D_def] obtain dx where
    dx: "if D then \<exists>c. DXT_POSIX_coll_init (rp_records_DXT_POSIX (DarshanReport w filename)) = Inr c \<and>
                    dx = [(''DXT_POSIX_coll_object'', Coll (DXT_POSIX_coll_object c))]
           else dx = []"
    and out: "out = [(''metadata'', MetadataV (rp_metadata (DarshanReport w filename))),
            (''modules'', StrList (rp_modules (DarshanReport w filename)))] @
           (if P then [(''POSIX_coll'', Coll (POSIX_coll (fcounters_coll_init
                     (rp_records_POSIX (DarshanReport w filename)))))] else []) @
           (if L then [(''LUSTRE_coll'', Coll (LUSTRE_coll (counters_coll_init
                     (rp_records_LUSTRE (DarshanReport w filename)))))] else []) @
           (if S then [(''STDIO_coll'', Coll (STDIO_coll (fcounters_coll_init
                     (rp_records_STDIO (DarshanReport w filename)))))] else []) @
           dx @
           [(''report'', ReportV (DarshanReport w filename)),
            (''loaded_modules'', StrList
               ((if P then [''POSIX_coll''] else []) @
                (if L then [''LUSTRE_coll''] else []) @
                (if S then [''STDIO_coll''] else []) @
                map fst dx))]"
    by blast
  consider (no) "\<not> D" "dx = []"
    | (yes) c where "D" "DXT_POSIX_coll_init (rp_records_DXT_POSIX (DarshanReport w filename)) = Inr c"
        "dx = [(''DXT_POSIX_coll_object'', Coll (DXT_POSIX_coll_object c))]"
    using dx by (cases D) auto
  then have all: "map_of out ''metadata'' = Some (MetadataV (rp_metadata (DarshanReport w filename)))
    \<and> map_of out ''modules'' = Some (StrList (rp_modules (DarshanReport w filename)))
    \<and> map_of out ''report'' = Some (ReportV (DarshanReport w filename))
    \<and> map_of out ''POSIX_coll'' =
           (if P then Some (Coll (POSIX_coll (fcounters_coll_init
                     (rp_records_POSIX (DarshanReport w filename))))) else None)
    \<and> map_of out ''LUSTRE_coll'' =
           (if L then Some (Coll (LUSTRE_coll (counters_coll_init
                     (rp_records_LUSTRE (DarshanReport w filename))))) else None)
    \<and> map_of out ''STDIO_coll'' =
           (if S then Some (Coll (STDIO_coll (fcounters_coll_init
                     (rp_records_STDIO (DarshanReport w filename))))) else None)
    \<and> (\<not> D \<longrightarrow> map_of out ''DXT_POSIX_coll_object'' = None)
    \<and> (D \<longrightarrow> (\<exists>c. DXT_POSIX_coll_init (rp_records_DXT_POSIX (DarshanReport w filename)) = Inr c \<and>
               map_of out ''DXT_POSIX_coll_object'' = Some (Coll (DXT_POSIX_coll_object c))))
    \<and> map_of out ''loaded_modules'' = Some (StrList
               ((if P then [''POSIX_coll''] else []) @
                (if L then [''LUSTRE_coll''] else []) @
                (if S then [''STDIO_coll''] else []) @
                (if D then [''DXT_POSIX_coll_object''] else [])))
    \<and> fst ` set out \<subseteq> {''metadata'', ''modules'', ''POSIX_coll'', ''LUSTRE_coll'', ''STDIO_coll'',
                         ''DXT_POSIX_coll_object'', ''report'', ''loaded_modules''}"
  proof cases
    case no
    then show ?thesis unfolding out by simp
  next
    case yes
    then show ?thesis unfolding out by simp
  qed
  from all show "map_of out ''metadata'' = Some (MetadataV (rp_metadata (DarshanReport w filename)))"
    and "map_of out ''modules'' = Some (StrList (rp_modules (DarshanReport w filename)))"
    and "map_of out ''report'' = Some (ReportV (DarshanReport w filename))"
    and "map_of out ''POSIX_coll'' =
           (if ''POSIX'' \<in> set (rp_modules (DarshanReport w filename))
            then Some (Coll (POSIX_coll (fcounters_coll_init
                     (rp_records_POSIX (DarshanReport w filename))))) else None)"
    and "map_of out ''LUSTRE_coll'' =
           (if ''LUSTRE'' \<in> set (rp_modules (DarshanReport w filename))
            then Some (Coll (LUSTRE_coll (counters_coll_init
                     (rp_records_LUSTRE (DarshanReport w filename))))) else None)"
    and "map_of out ''STDIO_coll'' =
           (if ''STDIO'' \<in> set (rp_modules (DarshanReport w filename))
            then Some (Coll (STDIO_coll (fcounters_coll_init
                     (rp_records_STDIO (DarshanReport w filename))))) else None)"
    and "''DXT_POSIX'' \<notin> set (rp_modules (DarshanReport w filename)) \<Longrightarrow>
           map_of out ''DXT_POSIX_coll_object'' = None"
    and "''DXT_POSIX'' \<in> set (rp_modules (DarshanReport w filename)) \<Longrightarrow>
           \<exists>c. DXT_POSIX_coll_init (rp_records_DXT_POSIX (DarshanReport w filename)) = Inr c \<and>
               map_of out ''DXT_POSIX_coll_object'' = Some (Coll (DXT_POSIX_coll_object c))"
    and "map_of out ''loaded_modules'' = Some (StrList
               ((if ''POSIX'' \<in> set (rp_modules (DarshanReport w filename))
                 then [''POSIX_coll''] else []) @
                (if ''LUSTRE'' \<in> set (rp_modules (DarshanReport w filename))
                 then [''LUSTRE_coll''] else []) @
                (if ''STDIO'' \<in> set (rp_modules (DarshanReport w filename))
                 then [''STDIO_coll''] else []) @
                (if ''DXT_POSIX'' \<in> set (rp_modules (DarshanReport w filename))
                 then [''DXT_POSIX_coll_object''] else [])))"
    and "fst ` set out \<subseteq> {''metadata'', ''modules'', ''POSIX_coll'', ''LUSTRE_coll'', ''STDIO_coll'',
                         ''DXT_POSIX_coll_object'', ''report'', ''loaded_modules''}"
    unfolding P_def L_def S_def D_def by blast+
qed

lemma read_log_job_record_ok:
  assumes a: "read_log w filename = Inr out"
  shows "job_record_ok out"
proof -
  note l = read_log_lookups [OF a]
  have D: "case map_of out ''DXT_POSIX_coll_object'' of Some (Coll c) \<Rightarrow> coll_ok c | _ \<Rightarrow> False"
    if "''DXT_POSIX'' \<in> set (rp_modules (DarshanReport w filename))"
  proof -
    from l(8) [OF that] obtain c where
      "DXT_POSIX_coll_init (rp_records_DXT_POSIX (DarshanReport w filename)) = Inr c"
      "map_of out ''DXT_POSIX_coll_object'' = Some (Coll (DXT_POSIX_coll_object c))" by blast
    then show ?thesis using DXT_POSIX_coll_init_ok by simp
  qed
  show ?thesis
    unfolding job_record_ok_def l(9)
    by (simp add: l(4,5,6) D counters_coll_init_ok fcounters_coll_init_ok)
qed

lemma read_log_returns:
  assumes "path_exists w filename" "path_isfile w filename"
    "''DXT_POSIX'' \<in> set (rp_modules (DarshanReport w filename)) \<longrightarrow>
       distinct (map x_id (rp_records_DXT_POSIX (DarshanReport w filename)))"
  shows "\<exists>out. read_log w filename = Inr out"
proof (cases "''DXT_POSIX'' \<in> set (rp_modules (DarshanReport w filename))")
  case True
  with assms show ?thesis
    by (simp add: read_log_def Let_def DXT_POSIX_coll_init_closed split_def)
next
  case False
  with assms show ?thesis
    by (simp add: read_log_def Let_def split_def)
qed


lemma read_log_example_b:
  "read_log example_world ''runs/b.darshan'' = Inr job_record_b"
  by (simp add: read_log_def example_world_def report_b_def job_record_b_def Let_def
      counters_coll_init_def)

lemma read_log_example_dxt:
  "read_log example_world ''logs/a.darshan'' = Inr job_record_dxt"
  by (simp add: read_log_def example_world_def report_dxt_def job_record_dxt_def Let_def
      DXT_POSIX_coll_init_def DXT_POSIX_metadata_init_def)


text \<open>
  Claim C2, at a failing input. The claim, like the docstring of \<^verbatim>\<open>read_log\<close> (it
  \<^verbatim>\<open>does not import any DXT modules or the HEATMAP module\<close>), says that neither
  HEATMAP nor DXT is ever loaded into a typed collection. The trace \<open>logs/a.darshan\<close>
  of the example world has the modules DXT_POSIX, HEATMAP and DXT_MPIIO. On it the
  reader does load DXT_POSIX: it builds a \<^verbatim>\<open>DXT_POSIX_coll\<close> from the module's records,
  stores it under \<open>DXT_POSIX_coll_object\<close> and lists that key in \<^verbatim>\<open>loaded_modules\<close>.
\<close>

theorem read_log_loads_DXT_POSIX:
  "''DXT_POSIX'' \<in> set (rp_modules (DarshanReport example_world ''logs/a.darshan'')) \<and>
   read_log example_world ''logs/a.darshan'' = Inr job_record_dxt \<and>
   map_of job_record_dxt ''DXT_POSIX_coll_object'' =
     Some (Coll (DXT_POSIX_coll_object
       \<lparr>dxt_metadata = [\<lparr>md_id = 9, md_rank = 0, md_hostname = ''n1'',
                          md_write_count = 2, md_read_count = 3\<rparr>],
        dxt_read_segments = [(9, ''reads'')],
        dxt_write_segments = [(9, ''writes'')]\<rparr>)) \<and>
   map_of job_record_dxt ''loaded_modules'' = Some (StrList [''DXT_POSIX_coll_object''])"
  using read_log_example_dxt
  by (simp add: example_world_def report_dxt_def job_record_dxt_def)


text \<open>
  What the reader does with the modules, for every input. \<^verbatim>\<open>read_log\<close> returns for
  every regular file whose DXT_POSIX records, if that module is present, have distinct
  ids. Every result has keys among \<open>metadata\<close>, \<open>modules\<close>, \<open>POSIX_coll\<close>,
  \<open>LUSTRE_coll\<close>, \<open>STDIO_coll\<close>, \<open>DXT_POSIX_coll_object\<close>, \<open>report\<close> and
  \<open>loaded_modules\<close> only, and a typed collection only under the four collection keys,
  of the matching class: HEATMAP and DXT_MPIIO are never loaded, whether present or
  not. DXT_POSIX, against the docstring, is loaded exactly when it is present: into
  the collection its records construct, stored under \<open>DXT_POSIX_coll_object\<close> and
  listed in \<^verbatim>\<open>loaded_modules\<close>.
\<close>

theorem read_log_typed_collections:
  "(path_exists w filename \<and> path_isfile w filename \<and>
    (''DXT_POSIX'' \<in> set (rp_modules (DarshanReport w filename)) \<longrightarrow>
       distinct (map x_id (rp_records_DXT_POSIX (DarshanReport w filename))))
    \<longrightarrow> (\<exists>out. read_log w filename = Inr out)) \<and>
   (\<forall>out. read_log w filename = Inr out \<longrightarrow>
      fst ` set out \<subseteq> {''metadata'', ''modules'', ''POSIX_coll'', ''LUSTRE_coll'', ''STDIO_coll'',
                         ''DXT_POSIX_coll_object'', ''report'', ''loaded_modules''} \<and>
      (\<forall>k c. map_of out k = Some (Coll c) \<longrightarrow>
         (k = ''POSIX_coll'' \<and> (\<exists>x. c = POSIX_coll x)) \<or>
         (k = ''LUSTRE_coll'' \<and> (\<exists>x. c = LUSTRE_coll x)) \<or>
         (k = ''STDIO_coll'' \<and> (\<exists>x. c = STDIO_coll x)) \<or>
         (k = ''DXT_POSIX_coll_object'' \<and> (\<exists>x. c = DXT_POSIX_coll_object x))) \<and>
      (''DXT_POSIX'' \<in> set (rp_modules (DarshanReport w filename)) \<longrightarrow>
         (\<exists>x loaded. DXT_POSIX_coll_init (rp_records_DXT_POSIX (DarshanReport w filename)) = Inr x \<and>
              map_of out ''DXT_POSIX_coll_object'' = Some (Coll (DXT_POSIX_coll_object x)) \<and>
              map_of out ''loaded_modules'' = Some (StrList loaded) \<and>
              ''DXT_POSIX_coll_object'' \<in> set loaded)) \<and>
      (''DXT_POSIX'' \<notin> set (rp_modules (DarshanReport w filename)) \<longrightarrow>
         map_of out ''DXT_POSIX_coll_object'' = None))"
proof (intro conjI allI impI)
  assume "path_exists w filename \<and> path_isfile w filename \<and>
    (''DXT_POSIX'' \<in> set (rp_modules (DarshanReport w filename)) \<longrightarrow>
       distinct (map x_id (rp_records_DXT_POSIX (DarshanReport w filename))))"
  then show "\<exists>out. read_log w filename = Inr out"
    using read_log_returns by blast
next
  fix out assume a: "read_log w filename = Inr out"
  show "fst ` set out \<subseteq> {''metadata'', ''modules'', ''POSIX_coll'', ''LUSTRE_coll'', ''STDIO_coll'',
                         ''DXT_POSIX_coll_object'', ''report'', ''loaded_modules''}"
    by (rule read_log_lookups(10) [OF a])
next
  fix out k c assume a: "read_log w filename = Inr out" and b: "map_of out k = Some (Coll c)"
  note l = read_log_lookups [OF a]
  from b have "k \<in> fst ` set out" by (force dest: map_of_SomeD)
  with l(10) have "k \<in> {''metadata'', ''modules'', ''POSIX_coll'', ''LUSTRE_coll'', ''STDIO_coll'',
                         ''DXT_POSIX_coll_object'', ''report'', ''loaded_modules''}" by (rule subsetD)
  then consider "k = ''metadata''" | "k = ''modules''" | "k = ''report''" | "k = ''loaded_modules''"
    | "k = ''POSIX_coll''" | "k = ''LUSTRE_coll''" | "k = ''STDIO_coll''"
    | "k = ''DXT_POSIX_coll_object''" by (simp only: insert_iff empty_iff) metis
  then show "(k = ''POSIX_coll'' \<and> (\<exists>x. c = POSIX_coll x)) \<or>
         (k = ''LUSTRE_coll'' \<and> (\<exists>x. c = LUSTRE_coll x)) \<or>
         (k = ''STDIO_coll'' \<and> (\<exists>x. c = STDIO_coll x)) \<or>
         (k = ''DXT_POSIX_coll_object'' \<and> (\<exists>x. c = DXT_POSIX_coll_object x))"
  proof cases
    case 1 with b l(1) show ?thesis by simp
  next
    case 2 with b l(2) show ?thesis by simp
  next
    case 3 with b l(3) show ?thesis by simp
  next
    case 4 with b l(9) show ?thesis by simp
  next
    case 5 with b l(4) show ?thesis by (auto split: if_splits)
  next
    case 6 with b l(5) show ?thesis by (auto split: if_splits)
  next
    case 7 with b l(6) show ?thesis by (auto split: if_splits)
  next
    case 8
    show ?thesis
    proof (cases "''DXT_POSIX'' \<in> set (rp_modules (DarshanReport w filename))")
      case True
      from l(8) [OF True] b 8 show ?thesis by auto
    next
      case False
      from l(7) [OF False] b 8 show ?thesis by simp
    qed
  qed
next
  fix out assume a: "read_log w filename = Inr out"
    and b: "''DXT_POSIX'' \<in> set (rp_modules (DarshanReport w filename))"
  note l = read_log_lookups [OF a]
  from l(8) [OF b] obtain x where
    x: "DXT_POSIX_coll_init (rp_records_DXT_POSIX (DarshanReport w filename)) = Inr x"
       "map_of out ''DXT_POSIX_coll_object'' = Some (Coll (DXT_POSIX_coll_object x))" by blast
  have "''DXT_POSIX_coll_object'' \<in> set ((if ''POSIX'' \<in> set (rp_modules (DarshanReport w filename))
                 then [''POSIX_coll''] else []) @
                (if ''LUSTRE'' \<in> set (rp_modules (DarshanReport w filename))
                 then [''LUSTRE_coll''] else []) @
                (if ''STDIO'' \<in> set (rp_modules (DarshanReport w filename))
                 then [''STDIO_coll''] else []) @
                (if ''DXT_POSIX'' \<in> set (rp_modules (DarshanReport w filename))
                 then [''DXT_POSIX_coll_object''] else []))"
    using b by simp
  with x l(9)
  show "\<exists>x loaded. DXT_POSIX_coll_init (rp_records_DXT_POSIX (DarshanReport w filename)) = Inr x \<and>
              map_of out ''DXT_POSIX_coll_object'' = Some (Coll (DXT_POSIX_coll_object x)) \<and>
              map_of out ''loaded_modules'' = Some (StrList loaded) \<and>
              ''DXT_POSIX_coll_object'' \<in> set loaded"
    by blast
next
  fix out assume a: "read_log w filename = Inr out"
    and b: "''DXT_POSIX'' \<notin> set (rp_modules (DarshanReport w filename))"
  show "map_of out ''DXT_POSIX_coll_object'' = None"
    by (rule read_log_lookups(7) [OF a b])
qed

theorem read_log_typed_collections_witness:
  "path_exists example_world ''logs/a.darshan'' \<and> path_isfile example_world ''logs/a.darshan'' \<and>
   rp_modules (DarshanReport example_world ''logs/a.darshan'') = [''DXT_POSIX'', ''HEATMAP'', ''DXT_MPIIO''] \<and>
   distinct (map x_id (rp_records_DXT_POSIX (DarshanReport example_world ''logs/a.darshan''))) \<and>
   read_log example_world ''logs/a.darshan'' = Inr job_record_dxt \<and>
   map fst job_record_dxt =
     [''metadata'', ''modules'', ''DXT_POSIX_coll_object'', ''report'', ''loaded_modules''] \<and>
   (\<exists>x. map_of job_record_dxt ''DXT_POSIX_coll_object'' = Some (Coll (DXT_POSIX_coll_object x))) \<and>
   ''DXT_POSIX'' \<notin> set (rp_modules (DarshanReport example_world ''runs/b.darshan'')) \<and>
   read_log example_world ''runs/b.darshan'' = Inr job_record_b \<and>
   map_of job_record_b ''DXT_POSIX_coll_object'' = None"
proof -
  have m: "rp_modules (DarshanReport example_world ''logs/a.darshan'') = [''DXT_POSIX'', ''HEATMAP'', ''DXT_MPIIO'']"
    and d: "distinct (map x_id (rp_records_DXT_POSIX (DarshanReport example_world ''logs/a.darshan'')))"
    and p: "path_exists example_world ''logs/a.darshan''" "path_isfile example_world ''logs/a.darshan''"
    and n: "''DXT_POSIX'' \<notin> set (rp_modules (DarshanReport example_world ''runs/b.darshan''))"
    by (simp_all add: example_world_def report_dxt_def report_b_def)
  have k: "map fst job_record_dxt =
     [''metadata'', ''modules'', ''DXT_POSIX_coll_object'', ''report'', ''loaded_modules'']"
    by (simp add: job_record_dxt_def)
  from read_log_typed_collections [of example_world "''logs/a.darshan''"] read_log_example_dxt m
  have 1: "\<exists>x. map_of job_record_dxt ''DXT_POSIX_coll_object'' = Some (Coll (DXT_POSIX_coll_object x))"
    by auto
  from read_log_typed_collections [of example_world "''runs/b.darshan''"] read_log_example_b n
  have 2: "map_of job_record_b ''DXT_POSIX_coll_object'' = None"
    by blast
  from m d p n k 1 2 read_log_example_dxt read_log_example_b show ?thesis by blast
qed

text \<open>
  Claim C10. In every dictionary \<^verbatim>\<open>read_log\<close> returns, \<^verbatim>\<open>loaded_modules\<close> is a list
  of strings each of which is a key of the same dictionary holding a collection object
  (one of the four classes with \<^verbatim>\<open>export_parquet(directory, prefix)\<close>); the list
  holds collection keys only, so neither MPI-IO nor DXT_MPIIO is in it; and the
  per-module export loop of the archive writer ends without an exception on it, for
  any output directory and prefix.
\<close>

theorem read_log_loaded_modules_are_keys:
  assumes a: "read_log w filename = Inr out"
  shows "\<exists>loaded. map_of out ''loaded_modules'' = Some (StrList loaded) \<and>
           (\<forall>m \<in> set loaded. \<exists>c. map_of out m = Some (Coll c)) \<and>
           set loaded \<subseteq> {''POSIX_coll'', ''LUSTRE_coll'', ''STDIO_coll'', ''DXT_POSIX_coll_object''} \<and>
           ''MPI-IO'' \<notin> set loaded \<and> ''DXT_MPIIO'' \<notin> set loaded \<and>
           snd (export_loaded_modules out output_dir report_name) = None"
proof -
  note l = read_log_lookups [OF a]
  have ok: "job_record_ok out" by (rule read_log_job_record_ok [OF a])
  have e: "snd (export_loaded_modules out output_dir report_name) = None"
    by (simp add: job_record_ok_export [OF ok])
  let ?loaded = "(if ''POSIX'' \<in> set (rp_modules (DarshanReport w filename))
                 then [''POSIX_coll''] else []) @
                (if ''LUSTRE'' \<in> set (rp_modules (DarshanReport w filename))
                 then [''LUSTRE_coll''] else []) @
                (if ''STDIO'' \<in> set (rp_modules (DarshanReport w filename))
                 then [''STDIO_coll''] else []) @
                (if ''DXT_POSIX'' \<in> set (rp_modules (DarshanReport w filename))
                 then [''DXT_POSIX_coll_object''] else [])"
  have 1: "\<forall>m \<in> set ?loaded. \<exists>c. map_of out m = Some (Coll c)"
    using l(8) by (auto simp: l(4,5,6))
  have 2: "set ?loaded \<subseteq> {''POSIX_coll'', ''LUSTRE_coll'', ''STDIO_coll'', ''DXT_POSIX_coll_object''}"
    by auto
  have 3: "''MPI-IO'' \<notin> set ?loaded \<and> ''DXT_MPIIO'' \<notin> set ?loaded"
    by simp
  from l(9) 1 2 3 e show ?thesis by blast
qed


theorem read_log_loaded_modules_are_keys_witness:
  "read_log example_world ''runs/b.darshan'' = Inr job_record_b \<and>
   map_of job_record_b ''loaded_modules'' = Some (StrList [''LUSTRE_coll'']) \<and>
   (\<exists>c. map_of job_record_b ''LUSTRE_coll'' = Some (Coll c)) \<and>
   snd (export_loaded_modules job_record_b ''out'' ''1_42'') = None"
proof -
  have r: "read_log example_world ''runs/b.darshan'' = Inr job_record_b"
    by (rule read_log_example_b)
  from read_log_loaded_modules_are_keys [OF r, of "''out''" "''1_42''"] obtain loaded where
    l: "map_of job_record_b ''loaded_modules'' = Some (StrList loaded)"
       "\<forall>m \<in> set loaded. \<exists>c. map_of job_record_b m = Some (Coll c)"
       "snd (export_loaded_modules job_record_b ''out'' ''1_42'') = None"
    by blast
  have "map_of job_record_b ''loaded_modules'' = Some (StrList [''LUSTRE_coll''])"
    by (simp add: job_record_b_def)
  with l have "loaded = [''LUSTRE_coll'']" by simp
  with l r show ?thesis by simp
qed

section \<open>Properties of the metadata table builder\<close>

text \<open>
  The two loops in closed form: for a record whose \<^verbatim>\<open>job\<close> dictionary has the header's
  keys the row is the looked-up values followed by \<^verbatim>\<open>exe\<close>, and over distinct names
  that are not yet labels the outer loop appends one row per name.
\<close>

lemma collect_values_closed:
  "report_metadata_of report = Inr md \<Longrightarrow>
   list_all (\<lambda>val. map_of (job md) val \<noteq> None) vals \<Longrightarrow>
   collect_values report vals vs = Inr (vs @ map (\<lambda>val. the (map_of (job md) val)) vals)"
  by (induction vals arbitrary: vs) auto

lemma row_values_closed:
  assumes "map_of report ''metadata'' = Some (MetadataV md)" and "metadata_ok report"
  shows "row_values report =
           Inr (map (\<lambda>val. the (map_of (job md) val)) (butlast mdf_header) @ [exe md])"
proof -
  have m: "report_metadata_of report = Inr md"
    using assms(1) by (simp add: report_metadata_of_def)
  have l: "list_all (\<lambda>val. map_of (job md) val \<noteq> None) (butlast mdf_header)"
    using assms by (simp add: metadata_ok_def)
  show ?thesis
    unfolding row_values_def by (simp add: collect_values_closed [OF m l] m)
qed

lemma metadata_ok_row_values:
  assumes "metadata_ok report"
  shows "\<exists>vs. row_values report = Inr vs"
proof -
  from assms obtain md where "map_of report ''metadata'' = Some (MetadataV md)"
    by (auto simp: metadata_ok_def split: option.splits outval.splits)
  from row_values_closed [OF this assms] show ?thesis by blast
qed

lemma move_metadata_loop_closed:
  assumes "distinct names" and "set names \<inter> set (df_index df) = {}"
    and "\<forall>n \<in> set names. \<exists>r vs. map_of rd n = Some r \<and> row_values r = Inr vs"
  shows "move_metadata_loop rd names df =
           Inr (df\<lparr>df_rows := df_rows df @
                      map (\<lambda>n. (n, projr (row_values (the (map_of rd n))))) names\<rparr>)"
  using assms
proof (induction names arbitrary: df)
  case Nil
  then show ?case by simp
next
  case (Cons n names)
  from Cons.prems(3) obtain r vs where r: "map_of rd n = Some r" "row_values r = Inr vs"
    by auto
  from Cons.prems(2) have fresh: "n \<notin> fst ` set (df_rows df)"
    by (auto simp: df_index_def)
  let ?df = "df\<lparr>df_rows := df_rows df @ [(n, vs)]\<rparr>"
  have set: "df_loc_set df n vs = ?df"
    by (simp add: df_loc_set_def update_fresh [OF fresh])
  have step: "move_metadata_loop rd (n # names) df = move_metadata_loop rd names ?df"
    using r fresh by (simp add: set df_index_def)
  have d: "distinct names" using Cons.prems(1) by simp
  have i: "set names \<inter> set (df_index ?df) = {}"
    using Cons.prems(1,2) by (auto simp: df_index_def)
  have a: "\<forall>n \<in> set names. \<exists>r vs. map_of rd n = Some r \<and> row_values r = Inr vs"
    using Cons.prems(3) by simp
  show ?case
    unfolding step Cons.IH [OF d i a] by (simp add: r)
qed

lemma map_of_distinct_fst:
  "distinct (map fst xs) \<Longrightarrow> (k, v) \<in> set xs \<Longrightarrow> map_of xs k = Some v"
  by simp

lemma move_metadata_closed:
  assumes d: "distinct (map fst report_data)"
    and ok: "\<forall>r \<in> snd ` set report_data. metadata_ok r"
  shows "move_metadata_into_dataframe report_data =
           Inr \<lparr>df_columns = mdf_header,
                df_rows = map (\<lambda>(n, r). (n, projr (row_values r))) report_data\<rparr>"
proof -
  have a: "\<forall>n \<in> set (map fst report_data).
             \<exists>r vs. map_of report_data n = Some r \<and> row_values r = Inr vs"
  proof
    fix n assume "n \<in> set (map fst report_data)"
    then obtain r where nr: "(n, r) \<in> set report_data" by auto
    with d have "map_of report_data n = Some r" by simp
    moreover from nr ok have "metadata_ok r" by force
    ultimately show "\<exists>r vs. map_of report_data n = Some r \<and> row_values r = Inr vs"
      using metadata_ok_row_values by blast
  qed
  have look: "map_of report_data (fst x) = Some (snd x)" if "x \<in> set report_data" for x
    using d that by (cases x) simp
  show ?thesis
    unfolding move_metadata_into_dataframe_def
    by (subst move_metadata_loop_closed [OF d _ a])
      (simp_all add: DataFrame_def df_index_def look split_def)
qed

lemma map_of_map_snd:
  "distinct (map fst xs) \<Longrightarrow> (k, v) \<in> set xs \<Longrightarrow>
   map_of (map (\<lambda>(n, r). (n, f r)) xs) k = Some (f v)"
  by (induction xs) (auto simp: image_iff)


text \<open>
  Claim C7. For a batch with distinct names (a dictionary) whose job records carry the
  vendor's metadata, \<^verbatim>\<open>move_metadata_into_dataframe\<close> returns a table with exactly
  the eleven columns \<open>run_time\<close>, \<open>start_time_nsec\<close>, \<open>start_time_sec\<close>,
  \<open>end_time_nsec\<close>, \<open>end_time_sec\<close>, \<open>jobid\<close>, \<open>uid\<close>, \<open>log_ver\<close>, \<open>metadata\<close>,
  \<open>nprocs\<close>, \<open>exe\<close>, whose row labels are the batch's names in order (one row per
  job). In the row of a job, each of the first ten columns holds the value the
  \<^verbatim>\<open>job\<close> dictionary of that job's metadata has under the column's name, and the
  eleventh holds the metadata's \<^verbatim>\<open>exe\<close> field.
\<close>

theorem move_metadata_into_dataframe_rows:
  assumes d: "distinct (map fst report_data)"
    and ok: "\<forall>r \<in> snd ` set report_data. metadata_ok r"
  shows "\<exists>df. move_metadata_into_dataframe report_data = Inr df \<and>
     df_columns df =
       [''run_time'', ''start_time_nsec'', ''start_time_sec'', ''end_time_nsec'',
        ''end_time_sec'', ''jobid'', ''uid'', ''log_ver'', ''metadata'', ''nprocs'', ''exe''] \<and>
     df_index df = map fst report_data \<and>
     (\<forall>(n, r) \<in> set report_data. \<forall>md. map_of r ''metadata'' = Some (MetadataV md) \<longrightarrow>
        (\<exists>row. map_of (df_rows df) n = Some row \<and> length row = 11 \<and>
           (\<forall>i<10. map_of (job md) (df_columns df ! i) = Some (row ! i)) \<and>
           row ! 10 = exe md))"
proof -
  let ?df = "\<lparr>df_columns = mdf_header,
              df_rows = map (\<lambda>(n, r). (n, projr (row_values r))) report_data\<rparr>"
  have r: "move_metadata_into_dataframe report_data = Inr ?df"
    by (rule move_metadata_closed [OF d ok])
  have len: "length mdf_header = 11" by (simp add: mdf_header_def)
  have rows: "\<exists>row. map_of (df_rows ?df) n = Some row \<and> length row = 11 \<and>
           (\<forall>i<10. map_of (job md) (df_columns ?df ! i) = Some (row ! i)) \<and>
           row ! 10 = exe md"
    if nr: "(n, r) \<in> set report_data" and md: "map_of r ''metadata'' = Some (MetadataV md)"
    for n r md
  proof -
    from nr ok have okr: "metadata_ok r" by force
    let ?row = "map (\<lambda>val. the (map_of (job md) val)) (butlast mdf_header) @ [exe md]"
    have rv: "row_values r = Inr ?row" by (rule row_values_closed [OF md okr])
    have 1: "map_of (df_rows ?df) n = Some ?row"
      using map_of_map_snd [OF d nr, of "\<lambda>r. projr (row_values r)"] by (simp add: rv)
    have 2: "length ?row = 11" by (simp add: len)
    have all: "\<forall>val \<in> set (butlast mdf_header). map_of (job md) val \<noteq> None"
      using okr md by (simp add: metadata_ok_def list_all_iff)
    have 3: "map_of (job md) (df_columns ?df ! i) = Some (?row ! i)" if "i < 10" for i
    proof -
      from that have i: "i < length (butlast mdf_header)" by (simp add: len)
      then have "butlast mdf_header ! i \<in> set (butlast mdf_header)" by (rule nth_mem)
      with all have "map_of (job md) (butlast mdf_header ! i) \<noteq> None" by blast
      moreover have "butlast mdf_header ! i = mdf_header ! i" using i by (simp add: nth_butlast)
      moreover have "?row ! i = the (map_of (job md) (butlast mdf_header ! i))"
        using i by (simp add: nth_append)
      ultimately show ?thesis by auto
    qed
    have 4: "?row ! 10 = exe md" by (simp add: nth_append len)
    from 1 2 3 4 show ?thesis by blast
  qed
  have cols: "df_columns ?df =
       [''run_time'', ''start_time_nsec'', ''start_time_sec'', ''end_time_nsec'',
        ''end_time_sec'', ''jobid'', ''uid'', ''log_ver'', ''metadata'', ''nprocs'', ''exe'']"
    by (simp add: mdf_header_def)
  have idx: "df_index ?df = map fst report_data"
    by (simp add: df_index_def split_def)
  from r cols idx rows show ?thesis by blast
qed


theorem move_metadata_into_dataframe_rows_witness:
  "distinct (map fst example_batch) \<and> metadata_ok job_record_b \<and> metadata_ok job_record_dxt \<and>
   move_metadata_into_dataframe example_batch =
     Inr \<lparr>df_columns =
            [''run_time'', ''start_time_nsec'', ''start_time_sec'', ''end_time_nsec'',
             ''end_time_sec'', ''jobid'', ''uid'', ''log_ver'', ''metadata'', ''nprocs'', ''exe''],
          df_rows =
            [(''1_42'', [POther ''12.5'', PInt 5, PInt 100, PInt 6, PInt 112, PInt 42, PInt 1,
                         PStr ''3.41'', POther ''{}'', PInt 4, PStr ''/bin/b'']),
             (''2_43'', [POther ''12.5'', PInt 5, PInt 100, PInt 6, PInt 112, PInt 43, PInt 2,
                         PStr ''3.41'', POther ''{}'', PInt 4, PStr ''/bin/x''])]\<rparr>"
proof -
  have d: "distinct (map fst example_batch)" by (simp add: example_batch_def)
  have okb: "metadata_ok job_record_b"
    by (simp add: metadata_ok_def job_record_b_def mdf_header_def example_job_def)
  have okx: "metadata_ok job_record_dxt"
    by (simp add: metadata_ok_def job_record_dxt_def mdf_header_def example_job_def)
  have ok: "\<forall>r \<in> snd ` set example_batch. metadata_ok r"
    using okb okx by (simp add: example_batch_def)
  from move_metadata_into_dataframe_rows [OF d ok] obtain df where
    df: "move_metadata_into_dataframe example_batch = Inr df"
    and cols: "df_columns df =
       [''run_time'', ''start_time_nsec'', ''start_time_sec'', ''end_time_nsec'',
        ''end_time_sec'', ''jobid'', ''uid'', ''log_ver'', ''metadata'', ''nprocs'', ''exe'']"
    and idx: "df_index df = map fst example_batch"
    and rows: "\<forall>(n, r) \<in> set example_batch. \<forall>md. map_of r ''metadata'' = Some (MetadataV md) \<longrightarrow>
        (\<exists>row. map_of (df_rows df) n = Some row \<and> length row = 11 \<and>
           (\<forall>i<10. map_of (job md) (df_columns df ! i) = Some (row ! i)) \<and>
           row ! 10 = exe md)"
    by blast
  have ev: "move_metadata_into_dataframe example_batch =
     Inr \<lparr>df_columns =
            [''run_time'', ''start_time_nsec'', ''start_time_sec'', ''end_time_nsec'',
             ''end_time_sec'', ''jobid'', ''uid'', ''log_ver'', ''metadata'', ''nprocs'', ''exe''],
          df_rows =
            [(''1_42'', [POther ''12.5'', PInt 5, PInt 100, PInt 6, PInt 112, PInt 42, PInt 1,
                         PStr ''3.41'', POther ''{}'', PInt 4, PStr ''/bin/b'']),
             (''2_43'', [POther ''12.5'', PInt 5, PInt 100, PInt 6, PInt 112, PInt 43, PInt 2,
                         PStr ''3.41'', POther ''{}'', PInt 4, PStr ''/bin/x''])]\<rparr>"
    by (simp add: move_metadata_into_dataframe_def example_batch_def job_record_b_def
        job_record_dxt_def row_values_def report_metadata_of_def mdf_header_def example_job_def
        DataFrame_def df_index_def df_loc_set_def)
  from df ev have "df_index df = [''1_42'', ''2_43'']" by (auto simp: df_index_def)
  with idx d okb okx ev show ?thesis by simp
qed

section \<open>Properties of the archive writer\<close>

text \<open>
  When the output path is usable, the names of the batch are distinct and every job
  record is well formed, no lookup of the writer fails and its actions are, in order:
  the \<^verbatim>\<open>mkdir\<close> if the path did not exist, the metadata table, and per job the
  exports of its loaded collections.
\<close>

lemma loaded_colls_loop:
  "list_all (\<lambda>m. case map_of r m of Some (Coll c) \<Rightarrow> coll_ok c | _ \<Rightarrow> False) l \<Longrightarrow>
   map (map_of r) l =
     map (\<lambda>c. Some (Coll c))
       (List.map_filter (\<lambda>m. case map_of r m of Some (Coll c) \<Rightarrow> Some c | _ \<Rightarrow> None) l)"
  by (induction l) (auto simp: map_filter_simps split: option.splits outval.splits)

lemma job_record_ok_loaded_colls:
  "job_record_ok r \<Longrightarrow>
   \<exists>l. map_of r ''loaded_modules'' = Some (StrList l) \<and>
       map (map_of r) l = map (\<lambda>c. Some (Coll c)) (loaded_colls r)"
  unfolding job_record_ok_def loaded_colls_def
  by (auto split: option.splits outval.splits simp: loaded_colls_loop)

lemma write_to_parquet_closed:
  assumes p: "\<not> (path_exists w output_dir \<and> \<not> path_isdir w output_dir)"
    and d: "distinct (map fst report_data)"
    and ok: "\<forall>r \<in> snd ` set report_data. job_record_ok r"
  shows "write_to_parquet w report_data metadata_df output_dir =
        ((if path_exists w output_dir then [] else [Mkdir output_dir]) @
         [MetadataToParquet (os_path_join output_dir ''metadata.parquet'') metadata_df] @
         concat (map (\<lambda>(report_name, report).
                   concat (map (\<lambda>c. fst (export_parquet c output_dir report_name))
                             (loaded_colls report))) report_data),
         None)"
proof -
  have body: "(case map_of report_data (fst x) of
                 None \<Rightarrow> ([], Some KeyError)
               | Some report \<Rightarrow> export_loaded_modules report output_dir (fst x)) =
              (concat (map (\<lambda>c. fst (export_parquet c output_dir (fst x)))
                         (loaded_colls (snd x))), None)"
    if "x \<in> set report_data" for x
  proof -
    from d that have "map_of report_data (fst x) = Some (snd x)" by (cases x) simp
    moreover from ok that have "job_record_ok (snd x)" by simp
    ultimately show ?thesis by (simp add: job_record_ok_export)
  qed
  have loop: "io_for (\<lambda>report_name.
                case map_of report_data report_name of
                  None \<Rightarrow> ([], Some KeyError)
                | Some report \<Rightarrow> export_loaded_modules report output_dir report_name)
                (map fst report_data) =
              (concat (map (\<lambda>x. concat (map (\<lambda>c. fst (export_parquet c output_dir (fst x)))
                         (loaded_colls (snd x)))) report_data), None)"
    unfolding io_for_map by (rule io_for_all_ok) (rule body)
  show ?thesis
    using p unfolding write_to_parquet_def Let_def loop
    by (auto simp: io_seq_def split_def)
qed

text \<open>
  Claim C8. If the output path exists and is not a directory, \<^verbatim>\<open>write_to_parquet\<close>
  raises and has done nothing. Otherwise, for a batch of well-formed job records (as
  \<^verbatim>\<open>read_log\<close> returns them, by \<open>read_log_job_record_ok\<close>) under distinct names, it
  creates the directory exactly when the path did not exist, then writes the metadata
  table to \<open>metadata.parquet\<close> inside the output directory, then calls, job by job and
  in the order of \<^verbatim>\<open>loaded_modules\<close>, \<^verbatim>\<open>export_parquet(output_dir, report_name)\<close> on
  each loaded collection, and ends without an exception. The loaded collections of a
  job record are the values it holds under the names in its \<^verbatim>\<open>loaded_modules\<close>, one
  per name.
\<close>

theorem write_to_parquet_trace:
  "(path_exists w output_dir \<and> \<not> path_isdir w output_dir \<longrightarrow>
      write_to_parquet w report_data metadata_df output_dir =
        ([], Some (OutputNotADirectory output_dir))) \<and>
   (\<not> (path_exists w output_dir \<and> \<not> path_isdir w output_dir) \<and>
    distinct (map fst report_data) \<and> (\<forall>r \<in> snd ` set report_data. job_record_ok r) \<longrightarrow>
      write_to_parquet w report_data metadata_df output_dir =
        ((if path_exists w output_dir then [] else [Mkdir output_dir]) @
         [MetadataToParquet (os_path_join output_dir ''metadata.parquet'') metadata_df] @
         concat (map (\<lambda>(report_name, report).
                   concat (map (\<lambda>c. fst (export_parquet c output_dir report_name))
                             (loaded_colls report))) report_data),
         None) \<and>
      (\<forall>r \<in> snd ` set report_data.
         \<exists>l. map_of r ''loaded_modules'' = Some (StrList l) \<and>
             map (map_of r) l = map (\<lambda>c. Some (Coll c)) (loaded_colls r)))"
proof (intro conjI impI)
  assume "path_exists w output_dir \<and> \<not> path_isdir w output_dir"
  then show "write_to_parquet w report_data metadata_df output_dir =
        ([], Some (OutputNotADirectory output_dir))"
    by (simp add: write_to_parquet_def)
next
  assume "\<not> (path_exists w output_dir \<and> \<not> path_isdir w output_dir) \<and>
    distinct (map fst report_data) \<and> (\<forall>r \<in> snd ` set report_data. job_record_ok r)"
  then show "write_to_parquet w report_data metadata_df output_dir =
        ((if path_exists w output_dir then [] else [Mkdir output_dir]) @
         [MetadataToParquet (os_path_join output_dir ''metadata.parquet'') metadata_df] @
         concat (map (\<lambda>(report_name, report).
                   concat (map (\<lambda>c. fst (export_parquet c output_dir report_name))
                             (loaded_colls report))) report_data),
         None)"
    using write_to_parquet_closed by blast
next
  assume "\<not> (path_exists w output_dir \<and> \<not> path_isdir w output_dir) \<and>
    distinct (map fst report_data) \<and> (\<forall>r \<in> snd ` set report_data. job_record_ok r)"
  then show "\<forall>r \<in> snd ` set report_data.
         \<exists>l. map_of r ''loaded_modules'' = Some (StrList l) \<and>
             map (map_of r) l = map (\<lambda>c. Some (Coll c)) (loaded_colls r)"
    using job_record_ok_loaded_colls by blast
qed

theorem write_to_parquet_trace_witness:
  "path_exists example_world ''logs/c.txt'' \<and> \<not> path_isdir example_world ''logs/c.txt'' \<and>
   write_to_parquet example_world example_batch (DataFrame mdf_header) ''logs/c.txt'' =
     ([], Some (OutputNotADirectory ''logs/c.txt'')) \<and>
   \<not> path_exists example_world ''out'' \<and>
   distinct (map fst example_batch) \<and> job_record_ok job_record_b \<and> job_record_ok job_record_dxt \<and>
   write_to_parquet example_world example_batch (DataFrame mdf_header) ''out'' =
     ([Mkdir ''out'',
       MetadataToParquet ''out/metadata.parquet'' (DataFrame mdf_header),
       ToParquet ''out/LUSTRE_1_42_0_7_counters.parquet'' ''counters_b'',
       ToParquet ''out/DXTPOSIX_2_43_9_0_n1_read_segments.parquet'' ''reads'',
       ToParquet ''out/DXTPOSIX_2_43_9_0_n1_write_segments.parquet'' ''writes''], None) \<and>
   path_exists example_world ''logs'' \<and> path_isdir example_world ''logs'' \<and>
   write_to_parquet example_world example_batch (DataFrame mdf_header) ''logs'' =
     ([MetadataToParquet ''logs/metadata.parquet'' (DataFrame mdf_header),
       ToParquet ''logs/LUSTRE_1_42_0_7_counters.parquet'' ''counters_b'',
       ToParquet ''logs/DXTPOSIX_2_43_9_0_n1_read_segments.parquet'' ''reads'',
       ToParquet ''logs/DXTPOSIX_2_43_9_0_n1_write_segments.parquet'' ''writes''], None)"
proof -
  have p1: "path_exists example_world ''logs/c.txt''" "\<not> path_isdir example_world ''logs/c.txt''"
    and p2: "\<not> path_exists example_world ''out''"
    and p3: "path_exists example_world ''logs''" "path_isdir example_world ''logs''"
    by (simp_all add: example_world_def)
  have d: "distinct (map fst example_batch)" by (simp add: example_batch_def)
  have okb: "job_record_ok job_record_b" by (simp add: job_record_ok_def job_record_b_def)
  have okx: "job_record_ok job_record_dxt" by (simp add: job_record_ok_def job_record_dxt_def)
  have ok: "\<forall>r \<in> snd ` set example_batch. job_record_ok r"
    using okb okx by (simp add: example_batch_def)
  have cb: "loaded_colls job_record_b =
      [LUSTRE_coll \<lparr>cc_metadata = [(0, 7)], cc_counters = [((0, 7), ''counters_b'')]\<rparr>]"
    by (simp add: loaded_colls_def job_record_b_def map_filter_simps)
  have cx: "loaded_colls job_record_dxt =
      [DXT_POSIX_coll_object
         \<lparr>dxt_metadata = [\<lparr>md_id = 9, md_rank = 0, md_hostname = ''n1'',
                            md_write_count = 2, md_read_count = 3\<rparr>],
          dxt_read_segments = [(9, ''reads'')],
          dxt_write_segments = [(9, ''writes'')]\<rparr>]"
    by (simp add: loaded_colls_def job_record_dxt_def map_filter_simps)
  have s: "str_int 0 = ''0''" "str_int 7 = ''7''" "str_int 9 = ''9''"
    by (simp_all add: str_int_def str_nat.simps digit_def)
  have eb: "counters_coll_export_parquet
        \<lparr>cc_metadata = [(0, 7)], cc_counters = [((0, 7), ''counters_b'')]\<rparr> ''LUSTRE'' dir ''1_42''
      = ([ToParquet (os_path_join dir ''LUSTRE_1_42_0_7_counters.parquet'') ''counters_b''], None)" for dir
    by (simp add: counters_coll_export_parquet_def file_fillers_def io_seq_def s)
  have ex: "DXT_POSIX_coll_export_parquet
         \<lparr>dxt_metadata = [\<lparr>md_id = 9, md_rank = 0, md_hostname = ''n1'',
                            md_write_count = 2, md_read_count = 3\<rparr>],
          dxt_read_segments = [(9, ''reads'')],
          dxt_write_segments = [(9, ''writes'')]\<rparr> dir ''2_43''
      = ([ToParquet (os_path_join dir ''DXTPOSIX_2_43_9_0_n1_read_segments.parquet'') ''reads'',
          ToParquet (os_path_join dir ''DXTPOSIX_2_43_9_0_n1_write_segments.parquet'') ''writes''], None)" for dir
    by (simp add: DXT_POSIX_coll_export_parquet_def to_filename_def io_seq_def s Let_def)
  note t = write_to_parquet_trace [of example_world _ example_batch "DataFrame mdf_header"]
  have 1: "write_to_parquet example_world example_batch (DataFrame mdf_header) ''logs/c.txt'' =
     ([], Some (OutputNotADirectory ''logs/c.txt''))"
    using t [of "''logs/c.txt''"] p1 by blast
  have 2: "write_to_parquet example_world example_batch (DataFrame mdf_header) ''out'' =
     ([Mkdir ''out'',
       MetadataToParquet ''out/metadata.parquet'' (DataFrame mdf_header),
       ToParquet ''out/LUSTRE_1_42_0_7_counters.parquet'' ''counters_b'',
       ToParquet ''out/DXTPOSIX_2_43_9_0_n1_read_segments.parquet'' ''reads'',
       ToParquet ''out/DXTPOSIX_2_43_9_0_n1_write_segments.parquet'' ''writes''], None)"
    using t [of "''out''"] p2 d ok
    by (simp add: example_batch_def cb cx eb ex os_path_join_def)
  have 3: "write_to_parquet example_world example_batch (DataFrame mdf_header) ''logs'' =
     ([MetadataToParquet ''logs/metadata.parquet'' (DataFrame mdf_header),
       ToParquet ''logs/LUSTRE_1_42_0_7_counters.parquet'' ''counters_b'',
       ToParquet ''logs/DXTPOSIX_2_43_9_0_n1_read_segments.parquet'' ''reads'',
       ToParquet ''logs/DXTPOSIX_2_43_9_0_n1_write_segments.parquet'' ''writes''], None)"
    using t [of "''logs''"] p3 d ok
    by (simp add: example_batch_def cb cx eb ex os_path_join_def)
  from p1 p2 p3 d okb okx 1 2 3 show ?thesis by blast
qed


section \<open>Properties of the orchestrator\<close>

lemma read_log_example_a:
  "read_log example_world ''runs/a.darshan'' = Inr job_record_a"
  by (simp add: read_log_def example_world_def report_a_def job_record_a_def Let_def
      counters_coll_init_def)


lemma collect_report_data_distinct:
  "collect_report_data w directory files acc = Inr rd \<Longrightarrow> distinct (map fst acc) \<Longrightarrow>
   distinct (map fst rd)"
  by (induction files arbitrary: acc) (auto simp: distinct_update split: sum.splits)

lemma collect_values_errors:
  "collect_values report vals vs = Inl e \<Longrightarrow> e = KeyError \<or> e = TypeError"
  by (induction vals arbitrary: vs)
    (auto simp: report_metadata_of_def split: sum.splits option.splits outval.splits)

lemma row_values_errors:
  "row_values report = Inl e \<Longrightarrow> e = KeyError \<or> e = TypeError"
  by (auto simp: row_values_def report_metadata_of_def dest: collect_values_errors
      split: sum.splits option.splits outval.splits)

lemma move_metadata_loop_no_name_error:
  "distinct names \<Longrightarrow> set names \<inter> set (df_index df) = {} \<Longrightarrow>
   move_metadata_loop rd names df \<noteq> Inl (NameNotUnique n)"
proof (induction names arbitrary: df)
  case Nil
  then show ?case by simp
next
  case (Cons a names)
  show ?case
  proof (cases "map_of rd a")
    case None
    then show ?thesis by simp
  next
    case (Some r)
    show ?thesis
    proof (cases "row_values r")
      case (Inl e)
      with Some row_values_errors [OF Inl] show ?thesis by auto
    next
      case (Inr vs)
      have fresh: "a \<notin> set (df_index df)" using Cons.prems(2) by simp
      have i: "set names \<inter> set (df_index (df_loc_set df a vs)) = {}"
        using Cons.prems by (auto simp: df_index_def df_loc_set_def dom_update)
      have d: "distinct names" using Cons.prems(1) by simp
      show ?thesis using Some Inr fresh Cons.IH [OF d i] by simp
    qed
  qed
qed

lemma move_metadata_no_name_error:
  "distinct (map fst report_data) \<Longrightarrow>
   move_metadata_into_dataframe report_data \<noteq> Inl (NameNotUnique n)"
  unfolding move_metadata_into_dataframe_def
  by (rule move_metadata_loop_no_name_error) (simp_all add: DataFrame_def df_index_def)

lemma read_log_errors:
  assumes "read_log w filename = Inl e"
  shows "e = PathDoesNotExist filename \<or> e = NotAValidFile filename \<or> e = RecordIdsNotUnique"
proof (cases "path_exists w filename \<and> path_isfile w filename")
  case False
  with assms show ?thesis by (auto simp: read_log_def split: if_splits)
next
  case True
  show ?thesis
  proof (cases "''DXT_POSIX'' \<in> set (rp_modules (DarshanReport w filename)) \<and>
                \<not> distinct (map x_id (rp_records_DXT_POSIX (DarshanReport w filename)))")
    case True
    with assms \<open>path_exists w filename \<and> path_isfile w filename\<close> show ?thesis
      by (simp add: read_log_def Let_def split_def DXT_POSIX_coll_init_closed)
  next
    case False
    with read_log_returns [of w filename] True obtain out where "read_log w filename = Inr out"
      by blast
    with assms show ?thesis by simp
  qed
qed

lemma generate_name_errors:
  "generate_name_for_report report = Inl e \<Longrightarrow> e = KeyError \<or> e = TypeError"
  by (auto simp: generate_name_for_report_def report_metadata_of_def Let_def
      split: sum.splits option.splits outval.splits)

lemma collect_report_data_no_name_error:
  "collect_report_data w directory files acc \<noteq> Inl (NameNotUnique n)"
proof (induction files arbitrary: acc)
  case Nil
  then show ?case by simp
next
  case (Cons f files)
  show ?case
  proof (cases "read_log w (os_path_join directory f)")
    case (Inl e)
    with read_log_errors [OF Inl] show ?thesis by auto
  next
    case (Inr r)
    show ?thesis
    proof (cases "generate_name_for_report r")
      case (Inl e)
      with Inr generate_name_errors [OF Inl] show ?thesis by auto
    next
      case name: (Inr tmp_name)
      with Inr Cons.IH show ?thesis by simp
    qed
  qed
qed

lemma collect_report_data_ok:
  "collect_report_data w directory files acc = Inr rd \<Longrightarrow>
   \<forall>r \<in> snd ` set acc. job_record_ok r \<Longrightarrow> \<forall>r \<in> snd ` set rd. job_record_ok r"
proof (induction files arbitrary: acc)
  case Nil
  then show ?case by simp
next
  case (Cons f files)
  from Cons.prems(1) obtain r tmp_name where
    r: "read_log w (os_path_join directory f) = Inr r"
    and "generate_name_for_report r = Inr tmp_name"
    and rest: "collect_report_data w directory files (AList.update tmp_name r acc) = Inr rd"
    by (auto split: sum.splits)
  have "snd ` set (AList.update tmp_name r acc) \<subseteq> insert r (snd ` set acc)"
    by (induction acc) auto
  with Cons.prems(2) read_log_job_record_ok [OF r]
  have "\<forall>r \<in> snd ` set (AList.update tmp_name r acc). job_record_ok r" by blast
  from Cons.IH [OF rest this] show ?case .
qed


text \<open>
  The batch dictionary that \<^verbatim>\<open>aggregate_darshan\<close> builds has distinct keys, as every
  dictionary has, so the duplicate-name check of the table builder cannot fire on it:
  no run of the orchestrator ends with \<open>NameNotUnique\<close>.
\<close>

lemma aggregate_darshan_no_name_error:
  "snd (aggregate_darshan w directory output_loc) \<noteq> Some (NameNotUnique n)"
proof (cases "collect_logfiles w directory")
  case (Inl e)
  then have "e = PathDoesNotExist directory \<or> e = NotADirectory directory"
    by (auto simp: collect_logfiles_def Let_def split: if_splits)
  with Inl show ?thesis by (auto simp: aggregate_darshan_def)
next
  case files: (Inr files)
  show ?thesis
  proof (cases "collect_report_data w directory files []")
    case (Inl e)
    with collect_report_data_no_name_error [of w directory files "[]" n] files
    show ?thesis by (auto simp: aggregate_darshan_def)
  next
    case rd: (Inr rd)
    have d: "distinct (map fst rd)" using collect_report_data_distinct [OF rd] by simp
    have ok: "\<forall>r \<in> snd ` set rd. job_record_ok r" using collect_report_data_ok [OF rd] by simp
    show ?thesis
    proof (cases "move_metadata_into_dataframe rd")
      case (Inl e)
      with move_metadata_no_name_error [OF d, of n] files rd
      show ?thesis by (auto simp: aggregate_darshan_def)
    next
      case (Inr mdf)
      show ?thesis
      proof (cases "path_exists w output_loc \<and> \<not> path_isdir w output_loc")
        case True
        with files rd Inr show ?thesis
          by (simp add: aggregate_darshan_def write_to_parquet_def)
      next
        case False
        from write_to_parquet_closed [OF False d ok] files rd Inr
        show ?thesis by (simp add: aggregate_darshan_def)
      qed
    qed
  qed
qed

text \<open>
  Claim C1, at a failing input. The directory \<open>runs\<close> holds two traces whose metadata
  has user 1 and job 42, so both get the generated name \<open>1_42\<close>. The assignment
  \<^verbatim>\<open>collected_report_data[tmp_name] = tmp_report_data\<close> replaces the first job record
  by the second; the run raises nothing, writes one metadata row (with the second
  trace's executable) and exports the second trace's table only.
\<close>

theorem aggregate_darshan_keeps_one_of_two_jobs:
  "collect_logfiles example_world ''runs'' = Inr [''a.darshan'', ''b.darshan''] \<and>
   read_log example_world ''runs/a.darshan'' = Inr job_record_a \<and>
   generate_name_for_report job_record_a = Inr ''1_42'' \<and>
   read_log example_world ''runs/b.darshan'' = Inr job_record_b \<and>
   generate_name_for_report job_record_b = Inr ''1_42'' \<and>
   collect_report_data example_world ''runs'' [''a.darshan'', ''b.darshan''] [] =
     Inr [(''1_42'', job_record_b)] \<and>
   aggregate_darshan example_world ''runs'' ''out'' =
     ([Mkdir ''out'',
       MetadataToParquet ''out/metadata.parquet''
         \<lparr>df_columns =
            [''run_time'', ''start_time_nsec'', ''start_time_sec'', ''end_time_nsec'',
             ''end_time_sec'', ''jobid'', ''uid'', ''log_ver'', ''metadata'', ''nprocs'', ''exe''],
          df_rows =
            [(''1_42'', [POther ''12.5'', PInt 5, PInt 100, PInt 6, PInt 112, PInt 42, PInt 1,
                         PStr ''3.41'', POther ''{}'', PInt 4, PStr ''/bin/b''])]\<rparr>,
       ToParquet ''out/LUSTRE_1_42_0_7_counters.parquet'' ''counters_b''], None)"
proof -
  have s: "str_int 0 = ''0''" "str_int 1 = ''1''" "str_int 7 = ''7''" "str_int 42 = ''42''"
    by (simp_all add: str_int_def str_nat.simps digit_def)
  have files: "collect_logfiles example_world ''runs'' = Inr [''a.darshan'', ''b.darshan'']"
    by (simp add: collect_logfiles_def example_world_def os_path_join_def splitext_def rfind_def
        Let_def)
  have na: "generate_name_for_report job_record_a = Inr ''1_42''"
    by (simp add: generate_name_for_report_def report_metadata_of_def job_record_a_def
        example_job_def s)
  have nb: "generate_name_for_report job_record_b = Inr ''1_42''"
    by (simp add: generate_name_for_report_def report_metadata_of_def job_record_b_def
        example_job_def s)
  have j: "os_path_join ''runs'' ''a.darshan'' = ''runs/a.darshan''"
    "os_path_join ''runs'' ''b.darshan'' = ''runs/b.darshan''"
    by (simp_all add: os_path_join_def)
  have coll: "collect_report_data example_world ''runs'' [''a.darshan'', ''b.darshan''] [] =
     Inr [(''1_42'', job_record_b)]"
    by (simp add: j read_log_example_a read_log_example_b na nb)
  have md: "move_metadata_into_dataframe [(''1_42'', job_record_b)] =
     Inr \<lparr>df_columns =
            [''run_time'', ''start_time_nsec'', ''start_time_sec'', ''end_time_nsec'',
             ''end_time_sec'', ''jobid'', ''uid'', ''log_ver'', ''metadata'', ''nprocs'', ''exe''],
          df_rows =
            [(''1_42'', [POther ''12.5'', PInt 5, PInt 100, PInt 6, PInt 112, PInt 42, PInt 1,
                         PStr ''3.41'', POther ''{}'', PInt 4, PStr ''/bin/b''])]\<rparr>"
    by (simp add: move_metadata_into_dataframe_def job_record_b_def row_values_def
        report_metadata_of_def mdf_header_def example_job_def DataFrame_def df_index_def
        df_loc_set_def)
  have wr: "write_to_parquet example_world [(''1_42'', job_record_b)] m ''out'' =
     ([Mkdir ''out'', MetadataToParquet ''out/metadata.parquet'' m,
       ToParquet ''out/LUSTRE_1_42_0_7_counters.parquet'' ''counters_b''], None)" for m
    by (simp add: write_to_parquet_def example_world_def export_loaded_modules_def
        job_record_b_def counters_coll_export_parquet_def file_fillers_def io_seq_def
        os_path_join_def s Let_def)
  have agg: "aggregate_darshan example_world ''runs'' ''out'' =
     ([Mkdir ''out'',
       MetadataToParquet ''out/metadata.parquet''
         \<lparr>df_columns =
            [''run_time'', ''start_time_nsec'', ''start_time_sec'', ''end_time_nsec'',
             ''end_time_sec'', ''jobid'', ''uid'', ''log_ver'', ''metadata'', ''nprocs'', ''exe''],
          df_rows =
            [(''1_42'', [POther ''12.5'', PInt 5, PInt 100, PInt 6, PInt 112, PInt 42, PInt 1,
                         PStr ''3.41'', POther ''{}'', PInt 4, PStr ''/bin/b''])]\<rparr>,
       ToParquet ''out/LUSTRE_1_42_0_7_counters.parquet'' ''counters_b''], None)"
    unfolding aggregate_darshan_def
    by (simp add: files j read_log_example_a read_log_example_b na nb md wr)
  from files read_log_example_a na read_log_example_b nb coll agg show ?thesis by blast
qed

end
